theory Spec2Isabelle
  imports Main "HOL-Library.Word"
begin

unbundle bit_operations_syntax

section \<open>Python values, exceptions and the library the programs call\<close>

text \<open>
  The repository holds two variants of a \<^verbatim>\<open>SharedMemory\<close> class
  (\<^verbatim>\<open>shared_memoryPythonSystemV.py\<close>, which calls libc through ctypes, and
  \<^verbatim>\<open>py_ipc.py\<close>, which calls the \<^verbatim>\<open>sysv_ipc\<close> module) and a
  Unix-socket request/response server (\<^verbatim>\<open>old/python/python_IPC.py\<close>).

  Values that reach \<^verbatim>\<open>json.dumps\<close> or come out of \<^verbatim>\<open>json.loads\<close> are
  modelled by \<open>pyval\<close>; Python's \<^verbatim>\<open>None\<close> is \<open>PyNone\<close>, which is also what
  JSON \<^verbatim>\<open>null\<close> parses to. Text is \<open>string\<close>.
\<close>

type_synonym byte = "8 word"

text \<open>A float is its 64 bits; its arithmetic is left to the runtime (\<open>float_mul\<close> below).\<close>

datatype pyfloat = Float64 "64 word"

datatype pyval =
    PyNone
  | PyBool bool
  | PyInt int
  | PyFloat pyfloat
  | PyStr string
  | PyList "pyval list"
  | PyDict "(string \<times> pyval) list"

datatype errno = EINVAL | EEXIST | ENOENT | ENOSPC

text \<open>
  The exceptions the three files can meet. \<open>OSError\<close> carries the errno it reports,
  if one was set. \<open>Segfault\<close> is not a Python exception: it stands for the process
  dying on an access through a ctypes array whose address is not mapped, and no
  \<^verbatim>\<open>except\<close> clause catches it.
\<close>

datatype exn =
    StructError
  | IndexError
  | TypeError
  | ValueError
  | KeyError string
  | UnicodeEncodeError
  | UnicodeDecodeError
  | JSONDecodeError
  | OSError "errno option"
  | ExistentialError
  | NotAttachedError
  | AttributeError
  | Segfault

datatype endian = Little | Big

text \<open>
  The parts of the Python runtime that the repository calls and does not define:
  \<^verbatim>\<open>json.dumps\<close>, \<^verbatim>\<open>json.loads\<close>, \<^verbatim>\<open>str.encode('utf-8')\<close>,
  \<^verbatim>\<open>bytes.decode('utf-8')\<close>, \<^verbatim>\<open>str(e)\<close> of an exception, float
  multiplication by an integer, and the byte order of the machine (\<^verbatim>\<open>struct\<close>'s
  native order). They are parameters of every definition that uses them.
\<close>

record pylib =
  json_dumps :: "pyval \<Rightarrow> exn + string"
  json_loads :: "string \<Rightarrow> exn + pyval"
  str_encode :: "string \<Rightarrow> exn + byte list"
  bytes_decode :: "byte list \<Rightarrow> exn + string"
  exn_str :: "exn \<Rightarrow> string"
  float_mul :: "pyfloat \<Rightarrow> int \<Rightarrow> pyfloat"
  byteorder :: endian

definition bindE :: "exn + 'a \<Rightarrow> ('a \<Rightarrow> exn + 'b) \<Rightarrow> exn + 'b" where
  "bindE m f = (case m of Inl e \<Rightarrow> Inl e | Inr x \<Rightarrow> f x)"

section \<open>\<^verbatim>\<open>struct\<close>: four-byte integers in native byte order\<close>

definition le_bytes :: "nat \<Rightarrow> byte list" where
  "le_bytes n = [of_nat n, of_nat (n div 256), of_nat (n div 65536), of_nat (n div 16777216)]"

fun le_value :: "byte list \<Rightarrow> nat" where
  "le_value [] = 0"
| "le_value (b # bs) = unat b + 256 * le_value bs"

definition native :: "endian \<Rightarrow> byte list \<Rightarrow> byte list" where
  "native bo bs = (case bo of Little \<Rightarrow> bs | Big \<Rightarrow> rev bs)"

text \<open>\<^verbatim>\<open>struct.pack('=I', n)\<close>: unsigned, four bytes; out of range raises.\<close>

definition pack_I :: "endian \<Rightarrow> int \<Rightarrow> exn + byte list" where
  "pack_I bo n =
     (if 0 \<le> n \<and> n < 2 ^ 32 then Inr (native bo (le_bytes (nat n))) else Inl StructError)"

text \<open>\<^verbatim>\<open>struct.unpack_from('=I', buf, 0)[0]\<close>: needs four bytes at the start of the buffer.\<close>

definition unpack_from_I :: "endian \<Rightarrow> byte list \<Rightarrow> exn + nat" where
  "unpack_from_I bo buf =
     (if length buf < 4 then Inl StructError else Inr (le_value (native bo (take 4 buf))))"

text \<open>\<^verbatim>\<open>struct.pack('i', n)\<close>: signed, four bytes, two's complement.\<close>

definition pack_i :: "endian \<Rightarrow> int \<Rightarrow> exn + byte list" where
  "pack_i bo n =
     (if - (2 ^ 31) \<le> n \<and> n < 2 ^ 31 then Inr (native bo (le_bytes (nat (n mod 2 ^ 32))))
      else Inl StructError)"

text \<open>\<^verbatim>\<open>struct.unpack('i', bs)[0]\<close>: exactly four bytes.\<close>

definition unpack_i :: "endian \<Rightarrow> byte list \<Rightarrow> exn + int" where
  "unpack_i bo bs =
     (if length bs \<noteq> 4 then Inl StructError
      else let u = le_value (native bo bs)
           in Inr (if u < 2 ^ 31 then int u else int u - 2 ^ 32))"

section \<open>The kernel's System V shared memory, as the programs use it\<close>

text \<open>
  The kernel is not part of the repository. Its state is modelled by the table of
  segments (by identifier), the table of keys, the attachments (attach address to
  identifier) and two limits, and the four calls follow shmget(2), shmat(2), shmdt(2)
  and shmctl(2) with \<^verbatim>\<open>IPC_RMID\<close>. Access permissions are not modelled: every
  segment these programs create has mode \<^verbatim>\<open>0o666\<close>.
\<close>

record segment =
  seg_key :: int
  seg_bytes :: "byte list"
  seg_nattch :: nat
  seg_dest :: bool

record kernel =
  segs :: "int \<rightharpoonup> segment"
  keytab :: "int \<rightharpoonup> int"
  atts :: "nat \<rightharpoonup> int"
  fresh_id :: int
  fresh_addr :: nat
  shmmax :: nat
  free_slots :: nat

definition IPC_CREAT :: nat where
  "IPC_CREAT = 512"

definition IPC_EXCL :: nat where
  "IPC_EXCL = 1024"

definition IPC_PRIVATE :: int where
  "IPC_PRIVATE = 0"

text \<open>The live segment a key names, if any.\<close>

definition lookup_key :: "kernel \<Rightarrow> int \<Rightarrow> (int \<times> segment) option" where
  "lookup_key k key =
     (if key = IPC_PRIVATE then None
      else case keytab k key of
             None \<Rightarrow> None
           | Some i \<Rightarrow> (case segs k i of None \<Rightarrow> None | Some s \<Rightarrow> Some (i, s)))"

definition shmget :: "kernel \<Rightarrow> int \<Rightarrow> int \<Rightarrow> nat \<Rightarrow> (errno + int) \<times> kernel" where
  "shmget k key sz shmflg =
     (case lookup_key k key of
        Some (i, s) \<Rightarrow>
          (if shmflg AND IPC_CREAT \<noteq> 0 \<and> shmflg AND IPC_EXCL \<noteq> 0 then (Inl EEXIST, k)
           else if sz < 0 \<or> int (length (seg_bytes s)) < sz then (Inl EINVAL, k)
           else (Inr i, k))
      | None \<Rightarrow>
          (if key \<noteq> IPC_PRIVATE \<and> shmflg AND IPC_CREAT = 0 then (Inl ENOENT, k)
           else if sz < 1 \<or> int (shmmax k) < sz then (Inl EINVAL, k)
           else if free_slots k = 0 then (Inl ENOSPC, k)
           else (Inr (fresh_id k),
                 k\<lparr>segs := (segs k)(fresh_id k \<mapsto>
                        \<lparr>seg_key = key, seg_bytes = replicate (nat sz) 0,
                         seg_nattch = 0, seg_dest = False\<rparr>),
                   keytab := (if key = IPC_PRIVATE then keytab k
                              else (keytab k)(key \<mapsto> fresh_id k)),
                   fresh_id := fresh_id k + 1,
                   free_slots := free_slots k - 1\<rparr>)))"

definition shmat :: "kernel \<Rightarrow> int \<Rightarrow> (errno + nat) \<times> kernel" where
  "shmat k i =
     (case segs k i of
        None \<Rightarrow> (Inl EINVAL, k)
      | Some s \<Rightarrow>
          (Inr (fresh_addr k),
           k\<lparr>segs := (segs k)(i \<mapsto> s\<lparr>seg_nattch := Suc (seg_nattch s)\<rparr>),
             atts := (atts k)(fresh_addr k \<mapsto> i),
             fresh_addr := Suc (fresh_addr k)\<rparr>))"

text \<open>Destroying a segment frees its identifier and, if the key still names it, the key.\<close>

definition destroy :: "kernel \<Rightarrow> int \<Rightarrow> segment \<Rightarrow> kernel" where
  "destroy k i s =
     k\<lparr>segs := (segs k)(i := None),
       keytab := (if keytab k (seg_key s) = Some i then (keytab k)(seg_key s := None)
                  else keytab k),
       free_slots := Suc (free_slots k)\<rparr>"

definition shmdt :: "kernel \<Rightarrow> nat \<Rightarrow> (errno + unit) \<times> kernel" where
  "shmdt k addr =
     (case atts k addr of
        None \<Rightarrow> (Inl EINVAL, k)
      | Some i \<Rightarrow>
          (let k1 = k\<lparr>atts := (atts k)(addr := None)\<rparr>
           in case segs k i of
                None \<Rightarrow> (Inr (), k1)
              | Some s \<Rightarrow>
                  (let s' = s\<lparr>seg_nattch := seg_nattch s - 1\<rparr>
                   in if seg_dest s \<and> seg_nattch s' = 0 then (Inr (), destroy k1 i s')
                      else (Inr (), k1\<lparr>segs := (segs k1)(i \<mapsto> s')\<rparr>))))"

text \<open>
  \<^verbatim>\<open>shmctl(shmid, IPC_RMID, NULL)\<close>: the segment is destroyed at once when nothing
  is attached; otherwise it is marked, its key is freed, and it lives until the last
  detach.
\<close>

definition shmctl_rmid :: "kernel \<Rightarrow> int \<Rightarrow> (errno + unit) \<times> kernel" where
  "shmctl_rmid k i =
     (case segs k i of
        None \<Rightarrow> (Inl EINVAL, k)
      | Some s \<Rightarrow>
          (if seg_nattch s = 0 then (Inr (), destroy k i s)
           else (Inr (),
                 k\<lparr>segs := (segs k)(i \<mapsto> s\<lparr>seg_dest := True\<rparr>),
                   keytab := (if keytab k (seg_key s) = Some i
                              then (keytab k)(seg_key s := None) else keytab k)\<rparr>)))"

text \<open>
  The bytes a process sees through an array of \<open>n\<close> bytes placed at an attach address,
  and the kernel after the process has overwritten them. An address that is not attached,
  or an array longer than the segment, has no bytes to show.
\<close>

definition array_at :: "kernel \<Rightarrow> nat \<Rightarrow> nat \<Rightarrow> byte list option" where
  "array_at k addr n =
     (case atts k addr of
        None \<Rightarrow> None
      | Some i \<Rightarrow>
          (case segs k i of
             None \<Rightarrow> None
           | Some s \<Rightarrow> if n \<le> length (seg_bytes s) then Some (take n (seg_bytes s)) else None))"

definition array_store :: "kernel \<Rightarrow> nat \<Rightarrow> byte list \<Rightarrow> kernel" where
  "array_store k addr mem =
     (case atts k addr of
        None \<Rightarrow> k
      | Some i \<Rightarrow>
          (case segs k i of
             None \<Rightarrow> k
           | Some s \<Rightarrow>
               k\<lparr>segs := (segs k)(i \<mapsto>
                      s\<lparr>seg_bytes := mem @ drop (length mem) (seg_bytes s)\<rparr>)\<rparr>))"

section \<open>The ctypes variant: \<^verbatim>\<open>shared_memoryPythonSystemV.py\<close>\<close>

text \<open>
  A process is the object it works on (\<open>self\<close>), the kernel it shares with the other
  processes, and what it has printed. A method takes the process and returns what the
  call returned or raised, with the process after the call.
\<close>

datatype event =
    PrintInitialized
  | PrintWrote pyval
  | PrintWriteError exn
  | PrintReadError exn
  | PrintShmdtFailed errno
  | PrintShmctlFailed errno
  | PrintCleanedUp
  | PrintCleanupError exn

record 'h proc =
  self :: 'h
  kern :: kernel
  stdout :: "event list"

text \<open>
  \<open>self_memory\<close> holds the address of the \<^verbatim>\<open>(c_char * self.size)\<close> array, or
  \<open>None\<close> for Python's \<^verbatim>\<open>None\<close>.
\<close>

record SharedMemory =
  self_key :: int
  self_size :: nat
  self_shmid :: "int option"
  self_memory :: "nat option"

text \<open>\<^verbatim>\<open>ctypes.c_int(x)\<close> keeps the low 32 bits of \<open>x\<close>, read as two's complement.\<close>

definition c_int :: "int \<Rightarrow> int" where
  "c_int x = (x + 2 ^ 31) mod 2 ^ 32 - 2 ^ 31"

text \<open>
  What a libc call hands to Python. \<^verbatim>\<open>shmget\<close> has the default result type
  \<^verbatim>\<open>c_int\<close>: the identifier, or -1. For \<^verbatim>\<open>shmat\<close> the source sets
  \<^verbatim>\<open>restype = c_void_p\<close>, and such a result arrives as a non-negative integer: the
  address, or, for the failure value \<^verbatim>\<open>(void *) -1\<close>, the integer \<open>2 ^ 64 - 1\<close>
  (pointers of 64 bits). \<open>get_errno\<close> is the errno a failed call has set.
\<close>

definition c_int_result :: "errno + int \<Rightarrow> int" where
  "c_int_result r = (case r of Inl e \<Rightarrow> - 1 | Inr i \<Rightarrow> i)"

definition c_void_p_result :: "errno + nat \<Rightarrow> int" where
  "c_void_p_result r = (case r of Inl e \<Rightarrow> 2 ^ 64 - 1 | Inr a \<Rightarrow> int a)"

definition get_errno :: "errno + 'a \<Rightarrow> errno option" where
  "get_errno r = (case r of Inl e \<Rightarrow> Some e | Inr x \<Rightarrow> None)"

text \<open>
  \<open>init\<close>, test by test as the source has them: \<^verbatim>\<open>if self.shmid == -1\<close> raises
  when \<^verbatim>\<open>shmget\<close> has failed; \<^verbatim>\<open>if addr == -1\<close> compares the converted
  pointer with -1. Then \<open>self.memory\<close> becomes the array at \<open>addr\<close> and the success
  line is printed.
\<close>

definition init :: "SharedMemory proc \<Rightarrow> (exn + unit) \<times> SharedMemory proc" where
  "init s =
     (let h = self s in
      case shmget (kern s) (c_int (self_key h)) (c_int (int (self_size h))) (IPC_CREAT OR 438) of
        (r1, k1) \<Rightarrow>
          (let shmid = c_int_result r1 in
           if shmid = - 1
           then (Inl (OSError (get_errno r1)),
                 s\<lparr>self := h\<lparr>self_shmid := Some shmid\<rparr>, kern := k1\<rparr>)
           else
             (case shmat k1 shmid of
                (r2, k2) \<Rightarrow>
                  (let addr = c_void_p_result r2 in
                   if addr = - 1
                   then (Inl (OSError (get_errno r2)),
                         s\<lparr>self := h\<lparr>self_shmid := Some shmid\<rparr>, kern := k2\<rparr>)
                   else (Inr (),
                         s\<lparr>self := h\<lparr>self_shmid := Some shmid, self_memory := Some (nat addr)\<rparr>,
                           kern := k2,
                           stdout := stdout s @ [PrintInitialized]\<rparr>)))))"

text \<open>\<^verbatim>\<open>SharedMemory(key, size)\<close>: the constructor sets the fields and calls \<open>init\<close>.\<close>

definition SharedMemory_new ::
  "int \<Rightarrow> nat \<Rightarrow> kernel \<Rightarrow> (exn + unit) \<times> SharedMemory proc" where
  "SharedMemory_new key sz k =
     init \<lparr>self = \<lparr>self_key = key, self_size = sz, self_shmid = None, self_memory = None\<rparr>,
           kern = k, stdout = []\<rparr>"

text \<open>
  What \<open>self.memory\<close> is to the code that uses it: \<^verbatim>\<open>None\<close>, an array over bytes
  that are not mapped, or an array over \<open>self.size\<close> bytes of a segment.
\<close>

datatype view = Unset | Unmapped | Mapped "byte list"

definition memory_view :: "SharedMemory proc \<Rightarrow> view" where
  "memory_view s =
     (case self_memory (self s) of
        None \<Rightarrow> Unset
      | Some addr \<Rightarrow>
          (case array_at (kern s) addr (self_size (self s)) of
             None \<Rightarrow> Unmapped
           | Some mem \<Rightarrow> Mapped mem))"

definition memory_update :: "SharedMemory proc \<Rightarrow> byte list \<Rightarrow> SharedMemory proc" where
  "memory_update s mem =
     (case self_memory (self s) of
        None \<Rightarrow> s
      | Some addr \<Rightarrow> s\<lparr>kern := array_store (kern s) addr mem\<rparr>)"

text \<open>
  \<^verbatim>\<open>struct.pack_into('=I', buf, 0, n)\<close>: the buffer must hold four bytes and \<open>n\<close>
  must fit.
\<close>

definition pack_into_I :: "endian \<Rightarrow> byte list \<Rightarrow> int \<Rightarrow> exn + byte list" where
  "pack_into_I bo buf n =
     (if length buf < 4 then Inl StructError
      else case pack_I bo n of Inl e \<Rightarrow> Inl e | Inr bs \<Rightarrow> Inr (bs @ drop 4 buf))"

text \<open>
  The loop \<^verbatim>\<open>for i, b in enumerate(json_bytes): self.memory[4 + i] = bytes([b])\<close>,
  with \<open>j = 4 + i\<close>: an index past the array raises, and the bytes stored so far stay.
\<close>

fun store_bytes :: "byte list \<Rightarrow> nat \<Rightarrow> byte list \<Rightarrow> (exn + unit) \<times> byte list" where
  "store_bytes mem j [] = (Inr (), mem)"
| "store_bytes mem j (b # bs) =
     (if j < length mem then store_bytes (mem[j := b]) (Suc j) bs else (Inl IndexError, mem))"

text \<open>The body of the \<^verbatim>\<open>try\<close> in \<^verbatim>\<open>write\<close>, on the array's bytes.\<close>

definition write_body :: "pylib \<Rightarrow> nat \<Rightarrow> view \<Rightarrow> pyval \<Rightarrow> (exn + unit) \<times> view" where
  "write_body L sz v data =
     (case json_dumps L data of
        Inl e \<Rightarrow> (Inl e, v)
      | Inr json_str \<Rightarrow>
          (case str_encode L json_str of
             Inl e \<Rightarrow> (Inl e, v)
           | Inr json_bytes \<Rightarrow>
               (case v of
                  Unset \<Rightarrow> (Inl TypeError, v)
                | Unmapped \<Rightarrow> (Inl Segfault, v)
                | Mapped mem \<Rightarrow>
                    (let mem1 = replicate sz 0 in
                     case pack_into_I (byteorder L) mem1 (int (length json_bytes)) of
                       Inl e \<Rightarrow> (Inl e, Mapped mem1)
                     | Inr mem2 \<Rightarrow>
                         (case store_bytes mem2 4 json_bytes of
                            (r, mem3) \<Rightarrow> (r, Mapped mem3))))))"

text \<open>
  \<^verbatim>\<open>write\<close>, here \<open>write_shm\<close>: the \<^verbatim>\<open>except Exception\<close> clause prints and raises again; a success
  prints the data.
\<close>

definition write_shm ::
  "pylib \<Rightarrow> pyval \<Rightarrow> SharedMemory proc \<Rightarrow> (exn + unit) \<times> SharedMemory proc" where
  "write_shm L data s =
     (case write_body L (self_size (self s)) (memory_view s) data of
        (r, v) \<Rightarrow>
          (let s1 = (case v of Mapped mem \<Rightarrow> memory_update s mem | _ \<Rightarrow> s) in
           case r of
             Inr u \<Rightarrow> (Inr (), s1\<lparr>stdout := stdout s1 @ [PrintWrote data]\<rparr>)
           | Inl Segfault \<Rightarrow> (Inl Segfault, s1)
           | Inl e \<Rightarrow> (Inl e, s1\<lparr>stdout := stdout s1 @ [PrintWriteError e]\<rparr>)))"

text \<open>The body of \<open>read\<close>'s \<^verbatim>\<open>try\<close>.\<close>

definition read_body :: "pylib \<Rightarrow> nat \<Rightarrow> view \<Rightarrow> exn + pyval" where
  "read_body L sz v =
     (case v of
        Unset \<Rightarrow> Inl TypeError
      | Unmapped \<Rightarrow> Inl Segfault
      | Mapped mem \<Rightarrow>
          (case unpack_from_I (byteorder L) mem of
             Inl e \<Rightarrow> Inl e
           | Inr len \<Rightarrow>
               if int len \<le> 0 \<or> int len > int sz - 4 then Inr PyNone
               else (case bytes_decode L (take len (drop 4 mem)) of
                       Inl e \<Rightarrow> Inl e
                     | Inr data_str \<Rightarrow> json_loads L data_str)))"

text \<open>
  \<open>read\<close>: the \<^verbatim>\<open>except Exception\<close> clause catches whatever the body raises,
  prints it and returns \<^verbatim>\<open>None\<close>. Only an array over unmapped bytes is beyond it.
\<close>

definition read :: "pylib \<Rightarrow> SharedMemory proc \<Rightarrow> (exn + pyval) \<times> SharedMemory proc" where
  "read L s =
     (case memory_view s of
        Unmapped \<Rightarrow> (Inl Segfault, s)
      | v \<Rightarrow>
          (case read_body L (self_size (self s)) v of
             Inr x \<Rightarrow> (Inr x, s)
           | Inl e \<Rightarrow> (Inr PyNone, s\<lparr>stdout := stdout s @ [PrintReadError e]\<rparr>)))"

text \<open>
  \<open>cleanup\<close>. \<^verbatim>\<open>if self.memory:\<close> is false for \<^verbatim>\<open>None\<close> and for an array of
  length 0. \<^verbatim>\<open>shmctl\<close> receives \<open>self.shmid\<close>, and \<^verbatim>\<open>None\<close> is passed as 0.
  The \<^verbatim>\<open>finally\<close> clause clears both fields.
\<close>

definition cleanup :: "SharedMemory proc \<Rightarrow> (exn + unit) \<times> SharedMemory proc" where
  "cleanup s =
     (case self_memory (self s) of
        None \<Rightarrow> (Inr (), s)
      | Some addr \<Rightarrow>
          (if self_size (self s) = 0 then (Inr (), s)
           else
             (case shmdt (kern s) addr of
                (r1, k1) \<Rightarrow>
                  (let out1 = (case r1 of Inl e \<Rightarrow> [PrintShmdtFailed e] | Inr u \<Rightarrow> []);
                       shmid = (case self_shmid (self s) of None \<Rightarrow> 0 | Some i \<Rightarrow> i)
                   in case shmctl_rmid k1 shmid of
                        (r2, k2) \<Rightarrow>
                          (let out2 = (case r2 of Inl e \<Rightarrow> [PrintShmctlFailed e] | Inr u \<Rightarrow> [])
                           in (Inr (),
                               s\<lparr>self := (self s)\<lparr>self_memory := None, self_shmid := None\<rparr>,
                                 kern := k2,
                                 stdout := stdout s @ out1 @ out2 @ [PrintCleanedUp]\<rparr>))))))"

section \<open>The \<^verbatim>\<open>sysv_ipc\<close> variant: \<^verbatim>\<open>py_ipc.py\<close>\<close>

text \<open>
  \<^verbatim>\<open>sysv_ipc\<close> is a third-party module. Its \<^verbatim>\<open>SharedMemory\<close> object holds the
  segment's identifier and the attach address (\<open>None\<close> once detached); its methods are
  modelled over the same kernel, after the module's documentation: the constructor calls
  \<^verbatim>\<open>shmget(key, size, mode | flags)\<close> and attaches; \<^verbatim>\<open>read(byte_count, offset)\<close>
  refuses a negative count and reads to the end of the segment when the count is 0 or
  reaches past the end; \<^verbatim>\<open>write\<close> refuses data that does not fit; \<^verbatim>\<open>detach\<close>
  raises \<^verbatim>\<open>NotAttachedError\<close> on an object that is not attached; \<^verbatim>\<open>remove\<close>
  raises when the identifier is gone. A key is a value of \<^verbatim>\<open>key_t\<close>, 32 bits
  signed: what the module does with a Python integer outside that range happens before
  \<^verbatim>\<open>shmget\<close> and is not modelled, so the keys of this variant are \<open>32 word\<close>.
\<close>

record shm_object =
  shm_id :: int
  shm_address :: "nat option"

definition sysv_error :: "errno \<Rightarrow> exn" where
  "sysv_error e =
     (case e of EEXIST \<Rightarrow> ExistentialError | ENOENT \<Rightarrow> ExistentialError
      | EINVAL \<Rightarrow> ValueError | ENOSPC \<Rightarrow> OSError (Some ENOSPC))"

definition sysv_SharedMemory ::
  "kernel \<Rightarrow> 32 word \<Rightarrow> nat \<Rightarrow> nat \<Rightarrow> int \<Rightarrow> (exn + shm_object) \<times> kernel" where
  "sysv_SharedMemory k key flags mode sz =
     (case shmget k (sint key) sz (mode OR flags) of
        (Inl e, k1) \<Rightarrow> (Inl (sysv_error e), k1)
      | (Inr i, k1) \<Rightarrow>
          (case shmat k1 i of
             (Inl e, k2) \<Rightarrow> (Inl (sysv_error e), k2)
           | (Inr addr, k2) \<Rightarrow> (Inr \<lparr>shm_id = i, shm_address = Some addr\<rparr>, k2)))"

text \<open>All the bytes of the segment attached at an address.\<close>

definition segment_at :: "kernel \<Rightarrow> nat \<Rightarrow> byte list option" where
  "segment_at k addr =
     (case atts k addr of
        None \<Rightarrow> None
      | Some i \<Rightarrow> (case segs k i of None \<Rightarrow> None | Some s \<Rightarrow> Some (seg_bytes s)))"

definition sysv_write ::
  "shm_object \<Rightarrow> byte list \<Rightarrow> nat \<Rightarrow> kernel \<Rightarrow> (exn + unit) \<times> kernel" where
  "sysv_write obj data offset k =
     (case shm_address obj of
        None \<Rightarrow> (Inl NotAttachedError, k)
      | Some addr \<Rightarrow>
          (case segment_at k addr of
             None \<Rightarrow> (Inl Segfault, k)
           | Some mem \<Rightarrow>
               if length mem < offset + length data then (Inl ValueError, k)
               else (Inr (),
                     array_store k addr
                       (take offset mem @ data @ drop (offset + length data) mem))))"

definition sysv_read :: "shm_object \<Rightarrow> int \<Rightarrow> nat \<Rightarrow> kernel \<Rightarrow> exn + byte list" where
  "sysv_read obj byte_count offset k =
     (case shm_address obj of
        None \<Rightarrow> Inl NotAttachedError
      | Some addr \<Rightarrow>
          (case segment_at k addr of
             None \<Rightarrow> Inl Segfault
           | Some mem \<Rightarrow>
               if length mem \<le> offset then Inl ValueError
               else if byte_count < 0 then Inl ValueError
               else (let n = (if byte_count = 0 \<or> int (length mem - offset) < byte_count
                              then length mem - offset else nat byte_count)
                     in Inr (take n (drop offset mem)))))"

definition sysv_detach :: "shm_object \<Rightarrow> kernel \<Rightarrow> (exn + unit) \<times> shm_object \<times> kernel" where
  "sysv_detach obj k =
     (case shm_address obj of
        None \<Rightarrow> (Inl NotAttachedError, obj, k)
      | Some addr \<Rightarrow>
          (case shmdt k addr of
             (Inl e, k1) \<Rightarrow> (Inl NotAttachedError, obj\<lparr>shm_address := None\<rparr>, k1)
           | (Inr u, k1) \<Rightarrow> (Inr (), obj\<lparr>shm_address := None\<rparr>, k1)))"

definition sysv_remove :: "shm_object \<Rightarrow> kernel \<Rightarrow> (exn + unit) \<times> kernel" where
  "sysv_remove obj k =
     (case shmctl_rmid k (shm_id obj) of
        (Inl e, k1) \<Rightarrow> (Inl ExistentialError, k1)
      | (Inr u, k1) \<Rightarrow> (Inr (), k1))"

record ipc_SharedMemory =
  ipc_key :: "32 word"
  ipc_size :: nat
  ipc_memory :: "shm_object option"

text \<open>
  \<open>ipc_init\<close> is \<^verbatim>\<open>init\<close> of \<^verbatim>\<open>py_ipc.py\<close>: the flags are
  \<^verbatim>\<open>IPC_CREAT | 0o666\<close>, the mode is the module's default \<^verbatim>\<open>0o600\<close>, and the
  handler of \<^verbatim>\<open>ExistentialError\<close> opens the segment by its key alone.
\<close>

definition ipc_init ::
  "ipc_SharedMemory proc \<Rightarrow> (exn + unit) \<times> ipc_SharedMemory proc" where
  "ipc_init s =
     (let h = self s in
      case sysv_SharedMemory (kern s) (ipc_key h) (IPC_CREAT OR 438) 384 (int (ipc_size h)) of
        (Inr obj, k1) \<Rightarrow> (Inr (), s\<lparr>self := h\<lparr>ipc_memory := Some obj\<rparr>, kern := k1\<rparr>)
      | (Inl ExistentialError, k1) \<Rightarrow>
          (case sysv_SharedMemory k1 (ipc_key h) 0 384 0 of
             (Inr obj, k2) \<Rightarrow> (Inr (), s\<lparr>self := h\<lparr>ipc_memory := Some obj\<rparr>, kern := k2\<rparr>)
           | (Inl e, k2) \<Rightarrow> (Inl e, s\<lparr>kern := k2\<rparr>))
      | (Inl e, k1) \<Rightarrow> (Inl e, s\<lparr>kern := k1\<rparr>))"

definition ipc_SharedMemory_new ::
  "32 word \<Rightarrow> nat \<Rightarrow> kernel \<Rightarrow> (exn + unit) \<times> ipc_SharedMemory proc" where
  "ipc_SharedMemory_new key sz k =
     ipc_init \<lparr>self = \<lparr>ipc_key = key, ipc_size = sz, ipc_memory = None\<rparr>,
               kern = k, stdout = []\<rparr>"

definition ipc_write ::
  "pylib \<Rightarrow> pyval \<Rightarrow> ipc_SharedMemory proc \<Rightarrow> (exn + unit) \<times> ipc_SharedMemory proc" where
  "ipc_write L data s =
     (case json_dumps L data of
        Inl e \<Rightarrow> (Inl e, s)
      | Inr json_str \<Rightarrow>
          (case str_encode L json_str of
             Inl e \<Rightarrow> (Inl e, s)
           | Inr json_bytes \<Rightarrow>
               (case pack_i (byteorder L) (int (length json_bytes)) of
                  Inl e \<Rightarrow> (Inl e, s)
                | Inr length_bytes \<Rightarrow>
                    (case ipc_memory (self s) of
                       None \<Rightarrow> (Inl AttributeError, s)
                     | Some obj \<Rightarrow>
                         (case sysv_write obj length_bytes 0 (kern s) of
                            (Inl e, k1) \<Rightarrow> (Inl e, s\<lparr>kern := k1\<rparr>)
                          | (Inr u, k1) \<Rightarrow>
                              (case sysv_write obj json_bytes 4 k1 of
                                 (r, k2) \<Rightarrow> (r, s\<lparr>kern := k2\<rparr>)))))))"

definition ipc_read :: "pylib \<Rightarrow> ipc_SharedMemory proc \<Rightarrow> exn + pyval" where
  "ipc_read L s =
     (case ipc_memory (self s) of
        None \<Rightarrow> Inl AttributeError
      | Some obj \<Rightarrow>
          bindE (sysv_read obj 4 0 (kern s)) (\<lambda>length_bytes.
          bindE (unpack_i (byteorder L) length_bytes) (\<lambda>len.
          bindE (sysv_read obj len 4 (kern s)) (\<lambda>data_bytes.
          bindE (bytes_decode L data_bytes) (\<lambda>json_str.
          json_loads L json_str)))))"

text \<open>
  \<open>ipc_cleanup\<close>: any object is true in \<^verbatim>\<open>if self.memory:\<close>; \<^verbatim>\<open>detach()\<close>
  stands outside the \<^verbatim>\<open>try\<close>, and the bare \<^verbatim>\<open>except\<close> swallows whatever
  \<^verbatim>\<open>remove()\<close> raises. \<open>self.memory\<close> is not cleared.
\<close>

definition ipc_cleanup ::
  "ipc_SharedMemory proc \<Rightarrow> (exn + unit) \<times> ipc_SharedMemory proc" where
  "ipc_cleanup s =
     (case ipc_memory (self s) of
        None \<Rightarrow> (Inr (), s)
      | Some obj \<Rightarrow>
          (case sysv_detach obj (kern s) of
             (Inl e, obj1, k1) \<Rightarrow>
               (Inl e, s\<lparr>self := (self s)\<lparr>ipc_memory := Some obj1\<rparr>, kern := k1\<rparr>)
           | (Inr u, obj1, k1) \<Rightarrow>
               (case sysv_remove obj1 k1 of
                  (r, k2) \<Rightarrow>
                    (Inr (), s\<lparr>self := (self s)\<lparr>ipc_memory := Some obj1\<rparr>, kern := k2\<rparr>))))"

section \<open>The socket server: \<^verbatim>\<open>old/python/python_IPC.py\<close>\<close>

text \<open>\<^verbatim>\<open>message["data"]\<close>: a missing key and a value that is not a dict both raise.\<close>

definition py_getitem :: "pyval \<Rightarrow> string \<Rightarrow> exn + pyval" where
  "py_getitem message key =
     (case message of
        PyDict kvs \<Rightarrow> (case map_of kvs key of None \<Rightarrow> Inl (KeyError key) | Some v \<Rightarrow> Inr v)
      | _ \<Rightarrow> Inl TypeError)"

text \<open>
  \<^verbatim>\<open>x * n\<close> for an integer \<open>n\<close>: numbers (and booleans, which are integers) are
  multiplied, strings and lists are repeated, \<^verbatim>\<open>None\<close> and dicts raise.
\<close>

definition py_mul :: "pylib \<Rightarrow> pyval \<Rightarrow> int \<Rightarrow> exn + pyval" where
  "py_mul L x n =
     (case x of
        PyNone \<Rightarrow> Inl TypeError
      | PyBool b \<Rightarrow> Inr (PyInt ((if b then 1 else 0) * n))
      | PyInt d \<Rightarrow> Inr (PyInt (d * n))
      | PyFloat f \<Rightarrow> Inr (PyFloat (float_mul L f n))
      | PyStr t \<Rightarrow> Inr (PyStr (concat (replicate (nat n) t)))
      | PyList xs \<Rightarrow> Inr (PyList (concat (replicate (nat n) xs)))
      | PyDict kvs \<Rightarrow> Inl TypeError)"

text \<open>
  The \<^verbatim>\<open>try\<close> body after a chunk has arrived: decode, parse, build the result,
  and the bytes that \<^verbatim>\<open>conn.send\<close> is given.
\<close>

definition process :: "pylib \<Rightarrow> byte list \<Rightarrow> exn + byte list" where
  "process L data =
     bindE (bytes_decode L data) (\<lambda>text.
     bindE (json_loads L text) (\<lambda>message.
     bindE (py_getitem message ''data'') (\<lambda>d.
     bindE (py_mul L d 2) (\<lambda>doubled.
     bindE (json_dumps L (PyDict [(''status'', PyStr ''success''), (''data'', doubled)]))
       (str_encode L)))))"

text \<open>The bytes the \<^verbatim>\<open>except\<close> clause sends for the exception \<open>e\<close>.\<close>

definition error_reply :: "pylib \<Rightarrow> exn \<Rightarrow> exn + byte list" where
  "error_reply L e =
     bindE (json_dumps L (PyDict [(''status'', PyStr ''error''),
                                  (''message'', PyStr (exn_str L e))]))
       (str_encode L)"

text \<open>
  \<^verbatim>\<open>conn.send(data)\<close>. What the successive calls on a connection do is given as a
  list: \<open>Inr n\<close> when the socket accepts \<open>n\<close> bytes (the call returns the count, which
  the source ignores, and at most the whole of \<open>data\<close> goes out), \<open>Inl e\<close> when the
  call raises \<open>e\<close>, as it does when the peer has closed the connection. Past the end of
  the list every call accepts all of its bytes. The result is the bytes that went out, or the
  exception, and the outcomes left for later calls.
\<close>

fun conn_send ::
  "(exn + nat) list \<Rightarrow> byte list \<Rightarrow> (exn + byte list) \<times> (exn + nat) list" where
  "conn_send [] data = (Inr data, [])"
| "conn_send (Inl e # outs) data = (Inl e, outs)"
| "conn_send (Inr n # outs) data = (Inr (take n data), outs)"

datatype ending = PeerClosed | Broke | Raised exn

text \<open>
  The \<^verbatim>\<open>except Exception as e\<close> clause: the error reply is built and sent, then
  \<^verbatim>\<open>break\<close>. Nothing guards this clause, so an exception raised while the reply is
  built or sent leaves the loop. \<open>rest\<close> is what the connection still has to deliver.
\<close>

definition handler ::
  "pylib \<Rightarrow> exn \<Rightarrow> (exn + byte list) list \<Rightarrow> (exn + nat) list \<Rightarrow>
     byte list list \<times> ending \<times> (exn + byte list) list \<times> (exn + nat) list" where
  "handler L e rest outs =
     (case error_reply L e of
        Inl e' \<Rightarrow> ([], Raised e', rest, outs)
      | Inr reply \<Rightarrow>
          (case conn_send outs reply of
             (Inl e', outs') \<Rightarrow> ([], Raised e', rest, outs')
           | (Inr wire, outs') \<Rightarrow> ([wire], Broke, rest, outs')))"

text \<open>
  One connection: the inner \<^verbatim>\<open>while True\<close>. The second argument lists what the
  successive \<^verbatim>\<open>conn.recv(1024)\<close> calls return or raise; an empty chunk, or the end of
  the list, is the peer closing. The third lists the outcomes of the sends. The
  \<^verbatim>\<open>try\<close> body is \<^verbatim>\<open>recv\<close>, \<open>process\<close> and the send of the reply, and an
  exception from any of the three goes to the handler. The result is what went out to the
  peer, how the loop ended, and the chunks and send outcomes that were not used. The prints
  are left out.
\<close>

fun serve ::
  "pylib \<Rightarrow> (exn + byte list) list \<Rightarrow> (exn + nat) list \<Rightarrow>
     byte list list \<times> ending \<times> (exn + byte list) list \<times> (exn + nat) list" where
  "serve L [] outs = ([], PeerClosed, [], outs)"
| "serve L (Inr data # rest) outs =
     (if data = [] then ([], PeerClosed, rest, outs)
      else case process L data of
             Inl e \<Rightarrow> handler L e rest outs
           | Inr reply \<Rightarrow>
               (case conn_send outs reply of
                  (Inl e, outs') \<Rightarrow> handler L e rest outs'
                | (Inr wire, outs') \<Rightarrow>
                    (case serve L rest outs' of (sent, fin) \<Rightarrow> (wire # sent, fin))))"
| "serve L (Inl e # rest) outs = handler L e rest outs"

text \<open>
  \<open>run\<close>: the outer \<^verbatim>\<open>while True\<close> accepts the connections one after the other;
  a connection is the chunks it delivers and the outcomes of the sends on it. An exception
  that leaves the inner loop ends \<open>run\<close>; otherwise the server goes back to
  \<^verbatim>\<open>accept\<close>. The result is what went out on each connection and the exception, if
  any, that ended the server.
\<close>

fun run ::
  "pylib \<Rightarrow> ((exn + byte list) list \<times> (exn + nat) list) list \<Rightarrow>
     byte list list list \<times> exn option" where
  "run L [] = ([], None)"
| "run L ((recvs, outs) # conns) =
     (case serve L recvs outs of
        (sent, Raised e, unused) \<Rightarrow> ([sent], Some e)
      | (sent, fin, unused) \<Rightarrow> (case run L conns of (log, r) \<Rightarrow> (sent # log, r)))"

section \<open>A small runtime to run the programs on\<close>

text \<open>
  To evaluate the definitions on concrete inputs, \<open>table_lib\<close> stands in for the
  runtime on a finite table of values and their JSON documents: \<open>json_dumps\<close> and
  \<open>json_loads\<close> look the table up, text is ASCII and encodes to itself, a byte
  from 128 on does not decode, and \<^verbatim>\<open>str\<close> of a \<^verbatim>\<open>KeyError\<close> is the key in
  single quotes (no other exception is printed in the runs below). The machine is
  little-endian.
\<close>

definition ascii_encode :: "string \<Rightarrow> exn + byte list" where
  "ascii_encode t =
     (if list_all (\<lambda>c. (of_char c :: nat) < 128) t
      then Inr (map (\<lambda>c. of_nat (of_char c)) t) else Inl UnicodeEncodeError)"

definition ascii_decode :: "byte list \<Rightarrow> exn + string" where
  "ascii_decode bs =
     (if list_all (\<lambda>b. unat b < 128) bs
      then Inr (map (\<lambda>b. char_of (unat b)) bs) else Inl UnicodeDecodeError)"

definition table_dumps :: "(pyval \<times> string) list \<Rightarrow> pyval \<Rightarrow> exn + string" where
  "table_dumps tbl v = (case map_of tbl v of None \<Rightarrow> Inl TypeError | Some t \<Rightarrow> Inr t)"

definition table_loads :: "(pyval \<times> string) list \<Rightarrow> string \<Rightarrow> exn + pyval" where
  "table_loads tbl t =
     (case map_of (map (\<lambda>(v, d). (d, v)) tbl) t of
        None \<Rightarrow> Inl JSONDecodeError
      | Some v \<Rightarrow> Inr v)"

definition table_lib :: "(pyval \<times> string) list \<Rightarrow> pylib" where
  "table_lib tbl =
     \<lparr>json_dumps = table_dumps tbl,
      json_loads = table_loads tbl,
      str_encode = ascii_encode,
      bytes_decode = ascii_decode,
      exn_str = (\<lambda>e. case e of KeyError key \<Rightarrow> [CHR 0x27] @ key @ [CHR 0x27] | _ \<Rightarrow> []),
      float_mul = (\<lambda>f n. f),
      byteorder = Little\<rparr>"

text \<open>A kernel with no segment, and the process of a program that has just started.\<close>

definition boot :: kernel where
  "boot = \<lparr>segs = Map.empty, keytab = Map.empty, atts = Map.empty,
           fresh_id = 1, fresh_addr = 4096, shmmax = 33554432, free_slots = 4096\<rparr>"

text \<open>
  A kernel with one segment, key 12345 and identifier 1, holding the given bytes and
  attached once at address 4096; and the process of each variant that holds it.
\<close>

definition demo_kernel :: "byte list \<Rightarrow> kernel" where
  "demo_kernel bytes =
     \<lparr>segs = [1 \<mapsto> \<lparr>seg_key = 12345, seg_bytes = bytes, seg_nattch = 1, seg_dest = False\<rparr>],
      keytab = [12345 \<mapsto> 1], atts = [4096 \<mapsto> 1],
      fresh_id = 2, fresh_addr = 4097, shmmax = 33554432, free_slots = 4095\<rparr>"

definition demo_proc :: "byte list \<Rightarrow> SharedMemory proc" where
  "demo_proc bytes =
     \<lparr>self = \<lparr>self_key = 12345, self_size = length bytes,
               self_shmid = Some 1, self_memory = Some 4096\<rparr>,
      kern = demo_kernel bytes, stdout = []\<rparr>"

definition demo_ipc_proc :: "byte list \<Rightarrow> ipc_SharedMemory proc" where
  "demo_ipc_proc bytes =
     \<lparr>self = \<lparr>ipc_key = 12345, ipc_size = length bytes,
               ipc_memory = Some \<lparr>shm_id = 1, shm_address = Some 4096\<rparr>\<rparr>,
      kern = demo_kernel bytes, stdout = []\<rparr>"

text \<open>
  The JSON document of \<^verbatim>\<open>{"data": 21}\<close> as \<^verbatim>\<open>json.dumps\<close> writes it, and a
  table with it and the document of the integer 7.
\<close>

definition data21_text :: string where
  "data21_text = CHR ''{'' # CHR 0x22 # ''data'' @ CHR 0x22 # '': 21}''"

definition scenario_tbl :: "(pyval \<times> string) list" where
  "scenario_tbl = [(PyDict [(''data'', PyInt 21)], data21_text), (PyInt 7, ''7'')]"

text \<open>
  Two more kernels around segment 1: one where a second process is attached too, at
  address 8192; and one where another process has already asked for removal and gone,
  so the segment is marked and the last detach destroys it. \<open>holder\<close> and
  \<open>ipc_holder\<close> are the processes attached at 4096.
\<close>

definition demo_shared_kernel :: "byte list \<Rightarrow> kernel" where
  "demo_shared_kernel bytes =
     \<lparr>segs = [1 \<mapsto> \<lparr>seg_key = 12345, seg_bytes = bytes, seg_nattch = 2, seg_dest = False\<rparr>],
      keytab = [12345 \<mapsto> 1], atts = [4096 \<mapsto> 1, 8192 \<mapsto> 1],
      fresh_id = 2, fresh_addr = 8193, shmmax = 33554432, free_slots = 4095\<rparr>"

definition demo_marked_kernel :: "byte list \<Rightarrow> kernel" where
  "demo_marked_kernel bytes =
     \<lparr>segs = [1 \<mapsto> \<lparr>seg_key = 12345, seg_bytes = bytes, seg_nattch = 1, seg_dest = True\<rparr>],
      keytab = Map.empty, atts = [4096 \<mapsto> 1],
      fresh_id = 2, fresh_addr = 8193, shmmax = 33554432, free_slots = 4095\<rparr>"

definition holder :: "kernel \<Rightarrow> nat \<Rightarrow> SharedMemory proc" where
  "holder k n =
     \<lparr>self = \<lparr>self_key = 12345, self_size = n, self_shmid = Some 1, self_memory = Some 4096\<rparr>,
      kern = k, stdout = []\<rparr>"

definition ipc_holder :: "kernel \<Rightarrow> nat \<Rightarrow> ipc_SharedMemory proc" where
  "ipc_holder k n =
     \<lparr>self = \<lparr>ipc_key = 12345, ipc_size = n,
               ipc_memory = Some \<lparr>shm_id = 1, shm_address = Some 4096\<rparr>\<rparr>,
      kern = k, stdout = []\<rparr>"












section \<open>Four-byte integers: packing and unpacking\<close>

lemma length_le_bytes: "length (le_bytes n) = 4"
  by (simp add: le_bytes_def)

lemma length_native: "length (native bo bs) = length bs"
  by (cases bo) (simp_all add: native_def)

lemma native_native: "native bo (native bo bs) = bs"
  by (cases bo) (simp_all add: native_def)

lemma le_value_le_bytes:
  assumes n: "n < 2 ^ 32"
  shows "le_value (le_bytes n) = n"
proof -
  define a where "a = n div 256"
  define b where "b = a div 256"
  define c where "c = b div 256"
  have d2: "n div 65536 = b"
    unfolding a_def b_def by (simp add: div_mult2_eq [symmetric])
  have d3: "n div 16777216 = c"
    unfolding a_def b_def c_def by (simp add: div_mult2_eq [symmetric])
  have c: "c < 256" using n unfolding d3 [symmetric] by simp
  have n_eq: "n = n mod 256 + 256 * a" unfolding a_def by simp
  have a_eq: "a = a mod 256 + 256 * b" unfolding b_def by simp
  have b_eq: "b = b mod 256 + 256 * c" unfolding c_def by simp
  have "le_value (le_bytes n) =
          n mod 256 + 256 * (a mod 256 + 256 * (b mod 256 + 256 * (c mod 256)))"
    by (simp add: le_bytes_def unat_of_nat d2 d3 a_def [symmetric])
  also have "\<dots> = n" using c n_eq a_eq b_eq by simp
  finally show ?thesis .
qed

section \<open>The ctypes variant: reading\<close>

lemma read_mapped:
  "memory_view s = Mapped mem \<Longrightarrow>
   read L s =
     (case read_body L (self_size (self s)) (Mapped mem) of
        Inr x \<Rightarrow> (Inr x, s)
      | Inl e \<Rightarrow> (Inr PyNone, s\<lparr>stdout := stdout s @ [PrintReadError e]\<rparr>))"
  by (simp add: read_def)

lemma memory_view_demo_proc: "memory_view (demo_proc bytes) = Mapped bytes"
  by (simp add: memory_view_def demo_proc_def demo_kernel_def array_at_def)

lemma self_size_demo_proc: "self_size (self (demo_proc bytes)) = length bytes"
  by (simp add: demo_proc_def)

text \<open>
  Claim C10. Whatever the mapped segment holds, \<open>read\<close> of the ctypes variant returns
  and never raises: the value is \<^verbatim>\<open>None\<close> when the four-byte prefix cannot be
  read, when the length is 0 or larger than \<open>self.size - 4\<close>, when the payload is not
  UTF-8 and when it is not JSON; otherwise it is the parsed payload.
\<close>

theorem read_never_raises:
  assumes "memory_view s = Mapped mem"
  shows "fst (read L s) =
           Inr (case unpack_from_I (byteorder L) mem of
                  Inl e \<Rightarrow> PyNone
                | Inr len \<Rightarrow>
                    if len = 0 \<or> int (self_size (self s)) - 4 < int len then PyNone
                    else (case bytes_decode L (take len (drop 4 mem)) of
                            Inl e \<Rightarrow> PyNone
                          | Inr text \<Rightarrow>
                              (case json_loads L text of Inl e \<Rightarrow> PyNone | Inr v \<Rightarrow> v)))"
  using assms by (simp add: read_mapped read_body_def split: sum.splits)

theorem read_never_raises_witness:
  "memory_view (demo_proc [255, 255, 255, 255, 110, 117, 108, 108]) =
     Mapped [255, 255, 255, 255, 110, 117, 108, 108] \<and>
   fst (read (table_lib []) (demo_proc [255, 255, 255, 255, 110, 117, 108, 108])) = Inr PyNone \<and>
   fst (read (table_lib []) (demo_proc [2, 0, 0, 0, 255, 255])) = Inr PyNone \<and>
   fst (read (table_lib []) (demo_proc [1, 0, 0, 0, 55, 0])) = Inr PyNone \<and>
   fst (read (table_lib [(PyInt 7, ''7'')]) (demo_proc [1, 0, 0, 0, 55, 0])) = Inr (PyInt 7)"
  using
    read_never_raises [OF memory_view_demo_proc, of "table_lib []"
      "[255, 255, 255, 255, 110, 117, 108, 108]"]
    read_never_raises [OF memory_view_demo_proc, of "table_lib []" "[2, 0, 0, 0, 255, 255]"]
    read_never_raises [OF memory_view_demo_proc, of "table_lib []" "[1, 0, 0, 0, 55, 0]"]
    read_never_raises [OF memory_view_demo_proc, of "table_lib [(PyInt 7, ''7'')]"
      "[1, 0, 0, 0, 55, 0]"]
  by (simp add: memory_view_demo_proc unpack_from_I_def native_def table_lib_def
      self_size_demo_proc ascii_decode_def table_loads_def char_of_def bit_Suc_0_iff)

section \<open>Length prefixes that are out of range\<close>

lemma table_lib_sel:
  "json_dumps (table_lib tbl) = table_dumps tbl"
  "json_loads (table_lib tbl) = table_loads tbl"
  "str_encode (table_lib tbl) = ascii_encode"
  "bytes_decode (table_lib tbl) = ascii_decode"
  "byteorder (table_lib tbl) = Little"
  by (simp_all add: table_lib_def)

lemma memory_view_length: "memory_view s = Mapped mem \<Longrightarrow> length mem = self_size (self s)"
  by (auto simp: memory_view_def array_at_def split: option.splits if_splits)

lemma sysv_read_prefix:
  assumes "shm_address obj = Some addr" and "segment_at k addr = Some mem" and "4 < length mem"
  shows "sysv_read obj 4 0 k = Inr (take 4 mem)"
  using assms by (auto simp: sysv_read_def)

lemma sysv_read_payload:
  assumes "shm_address obj = Some addr" and "segment_at k addr = Some mem" and "4 < length mem"
  shows "sysv_read obj len 4 k =
           (if len < 0 then Inl ValueError
            else Inr (take (if len = 0 \<or> int (length mem - 4) < len then length mem - 4
                            else nat len) (drop 4 mem)))"
  using assms by (simp add: sysv_read_def Let_def)

lemma ipc_read_attached:
  assumes "ipc_memory (self t) = Some obj" and "shm_address obj = Some addr"
    and "segment_at (kern t) addr = Some mem" and "4 < length mem"
  shows "ipc_read L t =
           bindE (unpack_i (byteorder L) (take 4 mem)) (\<lambda>len.
             if len < 0 then Inl ValueError
             else bindE (bytes_decode L
                           (take (if len = 0 \<or> int (length mem - 4) < len then length mem - 4
                                  else nat len) (drop 4 mem)))
                    (json_loads L))"
proof -
  have "ipc_read L t =
          bindE (sysv_read obj 4 0 (kern t)) (\<lambda>length_bytes.
          bindE (unpack_i (byteorder L) length_bytes) (\<lambda>len.
          bindE (sysv_read obj len 4 (kern t)) (\<lambda>data_bytes.
          bindE (bytes_decode L data_bytes) (json_loads L))))"
    using assms(1) by (simp add: ipc_read_def)
  also have "\<dots> =
          bindE (unpack_i (byteorder L) (take 4 mem)) (\<lambda>len.
          bindE (sysv_read obj len 4 (kern t)) (\<lambda>data_bytes.
          bindE (bytes_decode L data_bytes) (json_loads L)))"
    by (simp add: sysv_read_prefix [OF assms(2-4)] bindE_def)
  also have "\<dots> =
           bindE (unpack_i (byteorder L) (take 4 mem)) (\<lambda>len.
             if len < 0 then Inl ValueError
             else bindE (bytes_decode L
                           (take (if len = 0 \<or> int (length mem - 4) < len then length mem - 4
                                  else nat len) (drop 4 mem)))
                    (json_loads L))"
    by (auto simp: sysv_read_payload [OF assms(2-4)] bindE_def split: sum.splits)
  finally show ?thesis .
qed

lemma segment_at_demo_ipc_proc: "segment_at (kern (demo_ipc_proc bytes)) 4096 = Some bytes"
  by (simp add: demo_ipc_proc_def demo_kernel_def segment_at_def)

lemma ipc_memory_demo_ipc_proc:
  "ipc_memory (self (demo_ipc_proc bytes)) = Some \<lparr>shm_id = 1, shm_address = Some 4096\<rparr>"
  by (simp add: demo_ipc_proc_def)

lemma ipc_read_demo:
  "4 < length bytes \<Longrightarrow>
   ipc_read L (demo_ipc_proc bytes) =
           bindE (unpack_i (byteorder L) (take 4 bytes)) (\<lambda>len.
             if len < 0 then Inl ValueError
             else bindE (bytes_decode L
                           (take (if len = 0 \<or> int (length bytes - 4) < len then length bytes - 4
                                  else nat len) (drop 4 bytes)))
                    (json_loads L))"
  by (rule ipc_read_attached [OF ipc_memory_demo_ipc_proc _ segment_at_demo_ipc_proc]) simp_all

text \<open>
  Claim C2, as stated, fails on \<open>ipc_read\<close>, which checks nothing: on a segment of
  zeros (length 0) it raises \<^verbatim>\<open>JSONDecodeError\<close>, and on a prefix of four bytes
  255 (length -1) it raises \<^verbatim>\<open>ValueError\<close>; neither returns \<^verbatim>\<open>None\<close>.
\<close>

theorem ipc_read_unchecked_counterexample:
  "ipc_read (table_lib []) (demo_ipc_proc [0, 0, 0, 0, 0, 0, 0, 0]) = Inl JSONDecodeError \<and>
   ipc_read (table_lib []) (demo_ipc_proc [255, 255, 255, 255, 110, 117, 108, 108]) =
     Inl ValueError"
  by (simp add: ipc_read_demo unpack_i_def native_def table_lib_sel bindE_def ascii_decode_def
      table_loads_def)

text \<open>
  Claim C2, amended. In the ctypes variant, a buffer whose prefix reads as a length
  \<open>len\<close> (unsigned, so never negative) with \<open>len = 0\<close> or \<open>len > len(b) - 4\<close> makes
  \<open>read\<close> return \<^verbatim>\<open>None\<close>, touching nothing and printing nothing. The
  \<^verbatim>\<open>sysv_ipc\<close> variant does not check the length: with a prefix of 0 it hands all
  the bytes after the prefix to the decoder and the parser, and returns or raises what
  they do.
\<close>

theorem length_check:
  "(memory_view s = Mapped mem \<and> unpack_from_I (byteorder L) mem = Inr len \<and>
      (len = 0 \<or> int (length mem) - 4 < int len)
      \<longrightarrow> read L s = (Inr PyNone, s)) \<and>
   (ipc_memory (self t) = Some obj \<and> shm_address obj = Some addr \<and>
      segment_at (kern t) addr = Some seg \<and> 4 < length seg \<and>
      unpack_i (byteorder L) (take 4 seg) = Inr 0
      \<longrightarrow> ipc_read L t = bindE (bytes_decode L (drop 4 seg)) (json_loads L))"
proof (intro conjI impI)
  assume h: "memory_view s = Mapped mem \<and> unpack_from_I (byteorder L) mem = Inr len \<and>
      (len = 0 \<or> int (length mem) - 4 < int len)"
  then have "length mem = self_size (self s)" by (simp add: memory_view_length)
  with h show "read L s = (Inr PyNone, s)"
    by (auto simp: read_mapped read_body_def)
next
  assume h: "ipc_memory (self t) = Some obj \<and> shm_address obj = Some addr \<and>
      segment_at (kern t) addr = Some seg \<and> 4 < length seg \<and>
      unpack_i (byteorder L) (take 4 seg) = Inr 0"
  then have "ipc_read L t =
           bindE (unpack_i (byteorder L) (take 4 seg)) (\<lambda>len.
             if len < 0 then Inl ValueError
             else bindE (bytes_decode L
                           (take (if len = 0 \<or> int (length seg - 4) < len then length seg - 4
                                  else nat len) (drop 4 seg)))
                    (json_loads L))"
    by (intro ipc_read_attached) auto
  with h show "ipc_read L t = bindE (bytes_decode L (drop 4 seg)) (json_loads L)"
    by (simp add: bindE_def)
qed

theorem length_check_witness:
  "memory_view (demo_proc [0, 0, 0, 0, 0, 0, 0, 0]) = Mapped [0, 0, 0, 0, 0, 0, 0, 0] \<and>
   unpack_from_I (byteorder (table_lib [])) [0, 0, 0, 0, 0, 0, 0, 0] = Inr 0 \<and>
   read (table_lib []) (demo_proc [0, 0, 0, 0, 0, 0, 0, 0]) =
     (Inr PyNone, demo_proc [0, 0, 0, 0, 0, 0, 0, 0]) \<and>
   unpack_from_I (byteorder (table_lib [])) [5, 0, 0, 0, 123, 125, 0, 0] = Inr 5 \<and>
   read (table_lib []) (demo_proc [5, 0, 0, 0, 123, 125, 0, 0]) =
     (Inr PyNone, demo_proc [5, 0, 0, 0, 123, 125, 0, 0]) \<and>
   segment_at (kern (demo_ipc_proc [0, 0, 0, 0, 0, 0, 0, 0])) 4096 =
     Some [0, 0, 0, 0, 0, 0, 0, 0] \<and>
   unpack_i (byteorder (table_lib [])) (take 4 [0, 0, 0, 0, 0, 0, 0, 0]) = Inr 0 \<and>
   ipc_read (table_lib []) (demo_ipc_proc [0, 0, 0, 0, 0, 0, 0, 0]) = Inl JSONDecodeError"
  using
    length_check [where s = "demo_proc [0, 0, 0, 0, 0, 0, 0, 0]"
      and mem = "[0, 0, 0, 0, 0, 0, 0, 0]" and L = "table_lib []" and len = 0
      and t = "demo_ipc_proc [0, 0, 0, 0, 0, 0, 0, 0]"
      and obj = "\<lparr>shm_id = 1, shm_address = Some 4096\<rparr>" and addr = 4096
      and seg = "[0, 0, 0, 0, 0, 0, 0, 0]"]
    length_check [where s = "demo_proc [5, 0, 0, 0, 123, 125, 0, 0]"
      and mem = "[5, 0, 0, 0, 123, 125, 0, 0]" and L = "table_lib []" and len = 5]
  by (simp add: memory_view_demo_proc segment_at_demo_ipc_proc ipc_memory_demo_ipc_proc
      unpack_from_I_def unpack_i_def native_def table_lib_sel bindE_def ascii_decode_def
      table_loads_def)

section \<open>Payloads that do not decode\<close>

text \<open>
  Claim C3, as stated, fails on the ctypes variant: a payload that is not UTF-8, a payload
  that is not JSON, a length of 0 and a length past the buffer all make \<open>read\<close>
  return the same \<^verbatim>\<open>None\<close>.
\<close>

theorem read_same_none_counterexample:
  "fst (read (table_lib []) (demo_proc [2, 0, 0, 0, 255, 255])) = Inr PyNone \<and>
   fst (read (table_lib []) (demo_proc [2, 0, 0, 0, 123, 120])) = Inr PyNone \<and>
   fst (read (table_lib []) (demo_proc [0, 0, 0, 0, 0, 0])) = Inr PyNone \<and>
   fst (read (table_lib []) (demo_proc [9, 0, 0, 0, 0, 0])) = Inr PyNone"
  by (simp add: read_mapped [OF memory_view_demo_proc] read_body_def self_size_demo_proc
      unpack_from_I_def native_def table_lib_sel ascii_decode_def table_loads_def)

text \<open>
  Claim C3, amended. With a length prefix in range, a payload that fails to decode as
  UTF-8 or to parse as JSON makes \<open>read\<close> of the ctypes variant return
  \<^verbatim>\<open>None\<close>, the value it returns for a prefix out of range; the only difference
  is the line it prints for the exception. In the \<^verbatim>\<open>sysv_ipc\<close> variant the
  exception reaches the caller.
\<close>

theorem decode_failure:
  "(memory_view s = Mapped mem \<and> unpack_from_I (byteorder L) mem = Inr len \<and>
      0 < len \<and> int len \<le> int (length mem) - 4 \<and>
      (bytes_decode L (take len (drop 4 mem)) = Inl e \<or>
       (\<exists>text. bytes_decode L (take len (drop 4 mem)) = Inr text \<and> json_loads L text = Inl e))
      \<longrightarrow> read L s = (Inr PyNone, s\<lparr>stdout := stdout s @ [PrintReadError e]\<rparr>)) \<and>
   (ipc_memory (self t) = Some obj \<and> shm_address obj = Some addr \<and>
      segment_at (kern t) addr = Some seg \<and> 4 < length seg \<and>
      unpack_i (byteorder L) (take 4 seg) = Inr (int n) \<and>
      0 < n \<and> n \<le> length seg - 4 \<and>
      (bytes_decode L (take n (drop 4 seg)) = Inl e \<or>
       (\<exists>text. bytes_decode L (take n (drop 4 seg)) = Inr text \<and> json_loads L text = Inl e))
      \<longrightarrow> ipc_read L t = Inl e)"
proof (intro conjI impI)
  assume h: "memory_view s = Mapped mem \<and> unpack_from_I (byteorder L) mem = Inr len \<and>
      0 < len \<and> int len \<le> int (length mem) - 4 \<and>
      (bytes_decode L (take len (drop 4 mem)) = Inl e \<or>
       (\<exists>text. bytes_decode L (take len (drop 4 mem)) = Inr text \<and> json_loads L text = Inl e))"
  then have "length mem = self_size (self s)" by (simp add: memory_view_length)
  with h show "read L s = (Inr PyNone, s\<lparr>stdout := stdout s @ [PrintReadError e]\<rparr>)"
    by (auto simp: read_mapped read_body_def)
next
  assume h: "ipc_memory (self t) = Some obj \<and> shm_address obj = Some addr \<and>
      segment_at (kern t) addr = Some seg \<and> 4 < length seg \<and>
      unpack_i (byteorder L) (take 4 seg) = Inr (int n) \<and>
      0 < n \<and> n \<le> length seg - 4 \<and>
      (bytes_decode L (take n (drop 4 seg)) = Inl e \<or>
       (\<exists>text. bytes_decode L (take n (drop 4 seg)) = Inr text \<and> json_loads L text = Inl e))"
  then have "ipc_read L t =
           bindE (unpack_i (byteorder L) (take 4 seg)) (\<lambda>len.
             if len < 0 then Inl ValueError
             else bindE (bytes_decode L
                           (take (if len = 0 \<or> int (length seg - 4) < len then length seg - 4
                                  else nat len) (drop 4 seg)))
                    (json_loads L))"
    by (intro ipc_read_attached) auto
  with h show "ipc_read L t = Inl e"
    by (auto simp: bindE_def)
qed

lemma stdout_demo_proc: "stdout (demo_proc bytes) = []"
  by (simp add: demo_proc_def)

theorem decode_failure_witness:
  "memory_view (demo_proc [2, 0, 0, 0, 255, 255]) = Mapped [2, 0, 0, 0, 255, 255] \<and>
   bytes_decode (table_lib []) (take 2 (drop 4 [2, 0, 0, 0, 255, 255])) =
     Inl UnicodeDecodeError \<and>
   read (table_lib []) (demo_proc [2, 0, 0, 0, 255, 255]) =
     (Inr PyNone, (demo_proc [2, 0, 0, 0, 255, 255])\<lparr>stdout := [PrintReadError UnicodeDecodeError]\<rparr>) \<and>
   unpack_i (byteorder (table_lib [])) (take 4 [2, 0, 0, 0, 123, 120]) = Inr 2 \<and>
   ipc_read (table_lib []) (demo_ipc_proc [2, 0, 0, 0, 123, 120]) = Inl JSONDecodeError"
  using
    decode_failure [where s = "demo_proc [2, 0, 0, 0, 255, 255]"
      and mem = "[2, 0, 0, 0, 255, 255]" and L = "table_lib []" and len = 2
      and e = UnicodeDecodeError]
    decode_failure [where L = "table_lib []" and e = JSONDecodeError
      and t = "demo_ipc_proc [2, 0, 0, 0, 123, 120]"
      and obj = "\<lparr>shm_id = 1, shm_address = Some 4096\<rparr>" and addr = 4096
      and seg = "[2, 0, 0, 0, 123, 120]" and n = 2]
  by (simp add: memory_view_demo_proc segment_at_demo_ipc_proc ipc_memory_demo_ipc_proc
      unpack_from_I_def unpack_i_def native_def table_lib_sel ascii_decode_def
      table_loads_def stdout_demo_proc)

section \<open>Writing a frame\<close>

lemma store_bytes_fits:
  "j + length bs \<le> length mem \<Longrightarrow>
   store_bytes mem j bs = (Inr (), take j mem @ bs @ drop (j + length bs) mem)"
proof (induction bs arbitrary: mem j)
  case Nil
  then show ?case by simp
next
  case (Cons b bs)
  then have j: "j < length mem" by simp
  have "store_bytes (mem[j := b]) (Suc j) bs =
          (Inr (), take (Suc j) (mem[j := b]) @ bs @ drop (Suc j + length bs) (mem[j := b]))"
    using Cons.prems by (intro Cons.IH) simp
  moreover have "take (Suc j) (mem[j := b]) = take j mem @ [b]"
    using j by (simp add: take_Suc_conv_app_nth)
  moreover have "drop (Suc j + length bs) (mem[j := b]) = drop (Suc j + length bs) mem"
    by simp
  ultimately show ?case using j by simp
qed

lemma store_bytes_overflow:
  "bs \<noteq> [] \<Longrightarrow> length mem < j + length bs \<Longrightarrow> fst (store_bytes mem j bs) = Inl IndexError"
proof (induction bs arbitrary: mem j)
  case Nil
  then show ?case by simp
next
  case (Cons b bs)
  show ?case
  proof (cases "j < length mem")
    case True
    with Cons.prems have "bs \<noteq> []" by auto
    then have "fst (store_bytes (mem[j := b]) (Suc j) bs) = Inl IndexError"
      using Cons.prems by (intro Cons.IH) simp_all
    with True show ?thesis by simp
  next
    case False
    then show ?thesis by simp
  qed
qed

lemma unpack_from_I_frame:
  assumes "n < 2 ^ 32"
  shows "unpack_from_I bo (native bo (le_bytes n) @ rest) = Inr n"
  using assms
  by (simp add: unpack_from_I_def length_native length_le_bytes native_native le_value_le_bytes)

lemma unpack_i_frame:
  assumes "n < 2 ^ 31"
  shows "unpack_i bo (native bo (le_bytes n)) = Inr (int n)"
proof -
  from assms have "n < 2 ^ 32" by simp
  then have "le_value (le_bytes n) = n" by (rule le_value_le_bytes)
  with assms show ?thesis
    by (simp add: unpack_i_def length_native length_le_bytes native_native)
qed

text \<open>
  What the body of the ctypes variant's writing method leaves in an array of \<open>sz\<close>
  bytes, when the payload and its prefix fit.
\<close>

lemma write_body_fits:
  assumes "json_dumps L v = Inr text" and "str_encode L text = Inr payload"
    and "4 + length payload \<le> sz" and "length payload < 2 ^ 32"
  shows "write_body L sz (Mapped mem) v =
           (Inr (), Mapped (native (byteorder L) (le_bytes (length payload)) @ payload @
                            replicate (sz - (4 + length payload)) 0))"
proof -
  let ?hdr = "native (byteorder L) (le_bytes (length payload))"
  have p: "pack_into_I (byteorder L) (replicate sz 0) (int (length payload)) =
             Inr (?hdr @ replicate (sz - 4) 0)"
    using assms(3,4) by (simp add: pack_into_I_def pack_I_def)
  have "store_bytes (?hdr @ replicate (sz - 4) 0) 4 payload =
          (Inr (), take 4 (?hdr @ replicate (sz - 4) 0) @ payload @
                   drop (4 + length payload) (?hdr @ replicate (sz - 4) 0))"
    using assms(3) by (intro store_bytes_fits) (simp add: length_native length_le_bytes)
  then have "store_bytes (?hdr @ replicate (sz - 4) 0) 4 payload =
          (Inr (), ?hdr @ payload @ replicate (sz - (4 + length payload)) 0)"
    by (simp add: length_native length_le_bytes)
  with p show ?thesis
    using assms(1,2) by (simp add: write_body_def)
qed

text \<open>When the body succeeds, the frame did fit.\<close>

lemma write_body_succeeds:
  assumes "json_dumps L v = Inr text" and "str_encode L text = Inr payload"
    and "fst (write_body L sz (Mapped mem) v) = Inr ()"
  shows "4 + length payload \<le> sz \<and> length payload < 2 ^ 32"
proof -
  let ?hdr = "native (byteorder L) (le_bytes (length payload))"
  from assms have sz: "4 \<le> sz" and len: "length payload < 2 ^ 32"
    by (auto simp: write_body_def pack_into_I_def pack_I_def Let_def split: if_splits sum.splits)
  have "4 + length payload \<le> sz"
  proof (rule ccontr)
    assume over: "\<not> 4 + length payload \<le> sz"
    then have "length (?hdr @ replicate (sz - 4) 0) < 4 + length payload"
      using sz by (simp add: length_native length_le_bytes)
    moreover have "payload \<noteq> []" using over sz by auto
    ultimately have "fst (store_bytes (?hdr @ replicate (sz - 4) 0) 4 payload) = Inl IndexError"
      by (intro store_bytes_overflow)
    with assms sz len show False
      by (simp add: write_body_def pack_into_I_def pack_I_def Let_def split: prod.splits)
  qed
  with len show ?thesis by simp
qed

lemma memory_view_update:
  assumes "memory_view s = Mapped mem" and "length mem' = length mem"
  shows "memory_view (memory_update s mem') = Mapped mem'"
  using assms
  by (auto simp: memory_view_def memory_update_def array_at_def array_store_def
      split: option.splits if_splits)

lemma memory_update_fields:
  "self (memory_update s mem') = self s" "stdout (memory_update s mem') = stdout s"
  by (simp_all add: memory_update_def split: option.splits)

lemma memory_view_stdout: "memory_view (s\<lparr>stdout := out\<rparr>) = memory_view s"
  by (simp add: memory_view_def split: option.splits)

lemma write_shm_succeeds:
  assumes "memory_view s = Mapped mem"
    and "json_dumps L v = Inr text" and "str_encode L text = Inr payload"
    and "fst (write_shm L v s) = Inr ()"
  shows "4 + length payload \<le> self_size (self s) \<and> length payload < 2 ^ 32"
proof -
  from assms(1,4) have "fst (write_body L (self_size (self s)) (Mapped mem) v) = Inr ()"
    by (auto simp: write_shm_def Let_def split: prod.splits sum.splits exn.splits)
  with assms(2,3) show ?thesis by (rule write_body_succeeds)
qed

text \<open>
  A successful call leaves exactly the prefix, the payload and zeros in the array,
  whatever the array held before.
\<close>

lemma write_shm_result:
  assumes "memory_view s = Mapped mem"
    and "json_dumps L v = Inr text" and "str_encode L text = Inr payload"
    and "fst (write_shm L v s) = Inr ()"
  shows "memory_view (snd (write_shm L v s)) =
           Mapped (native (byteorder L) (le_bytes (length payload)) @ payload @
                   replicate (self_size (self s) - (4 + length payload)) 0)"
    and "self (snd (write_shm L v s)) = self s"
proof -
  let ?frame = "native (byteorder L) (le_bytes (length payload)) @ payload @
                   replicate (self_size (self s) - (4 + length payload)) 0"
  from assms have fits: "4 + length payload \<le> self_size (self s)" "length payload < 2 ^ 32"
    using write_shm_succeeds by blast+
  then have body: "write_body L (self_size (self s)) (Mapped mem) v = (Inr (), Mapped ?frame)"
    using assms(2,3) by (intro write_body_fits)
  have len: "length ?frame = length mem"
    using fits memory_view_length [OF assms(1)] by (simp add: length_native length_le_bytes)
  from body assms(1) have w: "write_shm L v s =
      (Inr (), (memory_update s ?frame)\<lparr>stdout := stdout (memory_update s ?frame) @ [PrintWrote v]\<rparr>)"
    by (simp add: write_shm_def Let_def)
  show "memory_view (snd (write_shm L v s)) = Mapped ?frame"
    unfolding w using memory_view_update [OF assms(1) len] by (simp add: memory_view_stdout)
  show "self (snd (write_shm L v s)) = self s"
    unfolding w by (simp add: memory_update_fields)
qed

lemma segment_at_store:
  assumes "segment_at k addr = Some seg" and "length m = length seg"
  shows "segment_at (array_store k addr m) addr = Some m"
  using assms
  by (auto simp: segment_at_def array_store_def split: option.splits)

lemma sysv_write_attached:
  assumes "shm_address obj = Some addr" and "segment_at k addr = Some seg"
  shows "sysv_write obj data offset k =
           (if length seg < offset + length data then (Inl ValueError, k)
            else (Inr (), array_store k addr
                            (take offset seg @ data @ drop (offset + length data) seg)))"
  using assms by (simp add: sysv_write_def)

text \<open>
  What \<open>ipc_write\<close> does to an attached segment: it succeeds exactly when the prefix
  can be packed and the frame fits, and then only the frame's bytes change.
\<close>

lemma ipc_write_attached:
  assumes "ipc_memory (self t) = Some obj" and "shm_address obj = Some addr"
    and "segment_at (kern t) addr = Some seg"
    and "json_dumps L v = Inr text" and "str_encode L text = Inr payload"
  shows "ipc_write L v t =
           (if \<not> length payload < 2 ^ 31 then (Inl StructError, t)
            else if length seg < 4 then (Inl ValueError, t)
            else if length seg < 4 + length payload
              then (Inl ValueError,
                    t\<lparr>kern := array_store (kern t) addr
                                (native (byteorder L) (le_bytes (length payload)) @ drop 4 seg)\<rparr>)
            else (Inr (),
                  t\<lparr>kern := array_store
                       (array_store (kern t) addr
                          (native (byteorder L) (le_bytes (length payload)) @ drop 4 seg))
                       addr
                       (native (byteorder L) (le_bytes (length payload)) @ payload @
                        drop (4 + length payload) seg)\<rparr>))"
proof (cases "length payload < 2 ^ 31")
  case False
  then show ?thesis using assms by (simp add: ipc_write_def pack_i_def)
next
  case True
  let ?hdr = "native (byteorder L) (le_bytes (length payload))"
  have pk: "pack_i (byteorder L) (int (length payload)) = Inr ?hdr"
    using True by (simp add: pack_i_def)
  have hl: "length ?hdr = 4" by (simp add: length_native length_le_bytes)
  show ?thesis
  proof (cases "length seg < 4")
    case True
    then show ?thesis
      using assms pk hl \<open>length payload < 2 ^ 31\<close>
      by (simp add: ipc_write_def sysv_write_attached [OF assms(2,3)])
  next
    case False
    let ?seg1 = "?hdr @ drop 4 seg"
    have l1: "length ?seg1 = length seg" using False hl by simp
    have w1: "sysv_write obj ?hdr 0 (kern t) = (Inr (), array_store (kern t) addr ?seg1)"
      using False hl by (simp add: sysv_write_attached [OF assms(2,3)])
    have s1: "segment_at (array_store (kern t) addr ?seg1) addr = Some ?seg1"
      using assms(3) l1 by (rule segment_at_store)
    have w2: "sysv_write obj payload 4 (array_store (kern t) addr ?seg1) =
           (if length seg < 4 + length payload
            then (Inl ValueError, array_store (kern t) addr ?seg1)
            else (Inr (), array_store (array_store (kern t) addr ?seg1) addr
                            (?hdr @ payload @ drop (4 + length payload) seg)))"
      using False hl by (simp add: sysv_write_attached [OF assms(2) s1] add.commute)
    show ?thesis
      using assms(1,4,5) pk w1 w2 False \<open>length payload < 2 ^ 31\<close>
      by (simp add: ipc_write_def)
  qed
qed

lemma ipc_write_result:
  assumes "ipc_memory (self t) = Some obj" and "shm_address obj = Some addr"
    and "segment_at (kern t) addr = Some seg"
    and "json_dumps L v = Inr text" and "str_encode L text = Inr payload"
    and "fst (ipc_write L v t) = Inr ()"
  shows "segment_at (kern (snd (ipc_write L v t))) addr =
           Some (native (byteorder L) (le_bytes (length payload)) @ payload @
                 drop (4 + length payload) seg)"
    and "self (snd (ipc_write L v t)) = self t"
    and "4 + length payload \<le> length seg" and "length payload < 2 ^ 31"
proof -
  let ?hdr = "native (byteorder L) (le_bytes (length payload))"
  note w = ipc_write_attached [OF assms(1-5)]
  from assms(6) show fits: "4 + length payload \<le> length seg" and small: "length payload < 2 ^ 31"
    unfolding w by (auto split: if_splits)
  have hl: "length ?hdr = 4" by (simp add: length_native length_le_bytes)
  have s1: "segment_at (array_store (kern t) addr (?hdr @ drop 4 seg)) addr =
              Some (?hdr @ drop 4 seg)"
    using fits hl by (intro segment_at_store [OF assms(3)]) simp
  have "segment_at (array_store (array_store (kern t) addr (?hdr @ drop 4 seg)) addr
                      (?hdr @ payload @ drop (4 + length payload) seg)) addr =
          Some (?hdr @ payload @ drop (4 + length payload) seg)"
    using fits hl by (intro segment_at_store [OF s1]) simp
  with fits small show "segment_at (kern (snd (ipc_write L v t))) addr =
           Some (?hdr @ payload @ drop (4 + length payload) seg)"
    unfolding w by simp
  from fits small show "self (snd (ipc_write L v t)) = self t"
    unfolding w by simp
qed

section \<open>The fixtures evaluated\<close>

lemma data21_bytes:
  "ascii_encode data21_text = Inr [123, 34, 100, 97, 116, 97, 34, 58, 32, 50, 49, 125]"
  "ascii_decode [123, 34, 100, 97, 116, 97, 34, 58, 32, 50, 49, 125] = Inr data21_text"
  by (simp_all add: ascii_encode_def ascii_decode_def data21_text_def char_of_def bit_Suc_0_iff)

lemma seven_bytes:
  "ascii_encode ''7'' = Inr [55]" "ascii_decode [55] = Inr ''7''"
  by (simp_all add: ascii_encode_def ascii_decode_def char_of_def bit_Suc_0_iff)

lemma scenario_docs:
  "table_dumps scenario_tbl (PyDict [(''data'', PyInt 21)]) = Inr data21_text"
  "table_loads scenario_tbl data21_text = Inr (PyDict [(''data'', PyInt 21)])"
  "table_dumps scenario_tbl (PyInt 7) = Inr ''7''"
  "table_loads scenario_tbl ''7'' = Inr (PyInt 7)"
  by (simp_all add: table_dumps_def table_loads_def scenario_tbl_def data21_text_def)

lemma write_shm_fits:
  assumes "memory_view s = Mapped mem"
    and "json_dumps L v = Inr text" and "str_encode L text = Inr payload"
    and "4 + length payload \<le> self_size (self s)" and "length payload < 2 ^ 32"
  shows "fst (write_shm L v s) = Inr ()"
  using assms write_body_fits [OF assms(2,3,4,5), of mem]
  by (simp add: write_shm_def Let_def)

lemma ipc_write_fits:
  assumes "ipc_memory (self t) = Some obj" and "shm_address obj = Some addr"
    and "segment_at (kern t) addr = Some seg"
    and "json_dumps L v = Inr text" and "str_encode L text = Inr payload"
    and "4 + length payload \<le> length seg" and "length payload < 2 ^ 31"
  shows "fst (ipc_write L v t) = Inr ()"
  using assms(6,7) by (simp add: ipc_write_attached [OF assms(1-5)])

section \<open>Round trip\<close>

text \<open>
  Claim C1. Let \<open>v\<close> be a value the runtime serialises and reads back: \<^verbatim>\<open>json.dumps\<close>
  gives a text, a non-empty one as every JSON document is, its UTF-8 bytes decode to the
  same text, and \<^verbatim>\<open>json.loads\<close> of the text is \<open>v\<close>. Then in both variants, once
  writing \<open>v\<close> to a mapped segment has succeeded (so the frame fitted), the next read
  returns \<open>v\<close>.
\<close>

theorem round_trip:
  assumes "json_dumps L v = Inr text" and "str_encode L text = Inr payload"
    and "payload \<noteq> []"
    and "bytes_decode L payload = Inr text" and "json_loads L text = Inr v"
  shows "(memory_view s = Mapped mem \<and> fst (write_shm L v s) = Inr ()
            \<longrightarrow> fst (read L (snd (write_shm L v s))) = Inr v) \<and>
         (ipc_memory (self t) = Some obj \<and> shm_address obj = Some addr \<and>
            segment_at (kern t) addr = Some seg \<and> fst (ipc_write L v t) = Inr ()
            \<longrightarrow> ipc_read L (snd (ipc_write L v t)) = Inr v)"
proof (intro conjI impI)
  let ?hdr = "native (byteorder L) (le_bytes (length payload))"
  have hl: "length ?hdr = 4" by (simp add: length_native length_le_bytes)
  assume h: "memory_view s = Mapped mem \<and> fst (write_shm L v s) = Inr ()"
  let ?s' = "snd (write_shm L v s)"
  let ?frame = "?hdr @ payload @ replicate (self_size (self s) - (4 + length payload)) 0"
  from h have fits: "4 + length payload \<le> self_size (self s)" "length payload < 2 ^ 32"
    using write_shm_succeeds [OF _ assms(1,2)] by blast+
  from h have view: "memory_view ?s' = Mapped ?frame" and self: "self ?s' = self s"
    using write_shm_result [OF _ assms(1,2)] by blast+
  have len: "unpack_from_I (byteorder L) ?frame = Inr (length payload)"
    using fits(2) by (rule unpack_from_I_frame)
  have slice: "take (length payload) (drop 4 ?frame) = payload"
    using hl by simp
  show "fst (read L ?s') = Inr v"
    using assms(3,4,5) fits len slice
    by (simp add: read_mapped [OF view] read_body_def self)
next
  let ?hdr = "native (byteorder L) (le_bytes (length payload))"
  have hl: "length ?hdr = 4" by (simp add: length_native length_le_bytes)
  assume h: "ipc_memory (self t) = Some obj \<and> shm_address obj = Some addr \<and>
            segment_at (kern t) addr = Some seg \<and> fst (ipc_write L v t) = Inr ()"
  let ?t' = "snd (ipc_write L v t)"
  let ?seg' = "?hdr @ payload @ drop (4 + length payload) seg"
  from h have seg': "segment_at (kern ?t') addr = Some ?seg'" and self: "self ?t' = self t"
    and fits: "4 + length payload \<le> length seg" and small: "length payload < 2 ^ 31"
    using ipc_write_result [OF _ _ _ assms(1,2)] by blast+
  have long: "4 < length ?seg'" using hl assms(3) by (cases payload) simp_all
  have mem: "ipc_memory (self ?t') = Some obj" using h self by simp
  have len: "unpack_i (byteorder L) (take 4 ?seg') = Inr (int (length payload))"
    using hl small by (simp add: unpack_i_frame)
  have slice: "take (length payload) (drop 4 ?seg') = payload"
    using hl by simp
  have "length ?seg' = length seg" using hl fits by simp
  then have inrange: "\<not> int (length ?seg' - 4) < int (length payload)"
    using fits by simp
  have "ipc_read L ?t' =
           bindE (unpack_i (byteorder L) (take 4 ?seg')) (\<lambda>len.
             if len < 0 then Inl ValueError
             else bindE (bytes_decode L
                           (take (if len = 0 \<or> int (length ?seg' - 4) < len then length ?seg' - 4
                                  else nat len) (drop 4 ?seg')))
                    (json_loads L))"
    using mem _ seg' long by (rule ipc_read_attached) (use h in simp)
  also have "\<dots> = bindE (bytes_decode L (take (length payload) (drop 4 ?seg'))) (json_loads L)"
    unfolding len using assms(3) inrange by (simp add: bindE_def)
  also have "\<dots> = Inr v"
    unfolding slice using assms(4,5) by (simp add: bindE_def)
  finally show "ipc_read L ?t' = Inr v" .
qed

theorem round_trip_witness:
  "fst (write_shm (table_lib scenario_tbl) (PyDict [(''data'', PyInt 21)])
         (demo_proc (replicate 16 0))) = Inr () \<and>
   fst (read (table_lib scenario_tbl)
         (snd (write_shm (table_lib scenario_tbl) (PyDict [(''data'', PyInt 21)])
                (demo_proc (replicate 16 0))))) = Inr (PyDict [(''data'', PyInt 21)]) \<and>
   fst (ipc_write (table_lib scenario_tbl) (PyDict [(''data'', PyInt 21)])
         (demo_ipc_proc (replicate 16 0))) = Inr () \<and>
   ipc_read (table_lib scenario_tbl)
     (snd (ipc_write (table_lib scenario_tbl) (PyDict [(''data'', PyInt 21)])
            (demo_ipc_proc (replicate 16 0)))) = Inr (PyDict [(''data'', PyInt 21)])"
proof -
  let ?L = "table_lib scenario_tbl" and ?v = "PyDict [(''data'', PyInt 21)]"
  let ?payload = "[123, 34, 100, 97, 116, 97, 34, 58, 32, 50, 49, 125] :: byte list"
  have lib: "json_dumps ?L ?v = Inr data21_text" "str_encode ?L data21_text = Inr ?payload"
    "?payload \<noteq> []" "bytes_decode ?L ?payload = Inr data21_text"
    "json_loads ?L data21_text = Inr ?v"
    by (simp_all add: table_lib_sel scenario_docs data21_bytes)
  have w: "fst (write_shm ?L ?v (demo_proc (replicate 16 0))) = Inr ()"
    by (rule write_shm_fits [OF memory_view_demo_proc lib(1,2)])
      (simp_all add: self_size_demo_proc)
  have iw: "fst (ipc_write ?L ?v (demo_ipc_proc (replicate 16 0))) = Inr ()"
    by (rule ipc_write_fits [OF ipc_memory_demo_ipc_proc _ segment_at_demo_ipc_proc lib(1,2)])
      simp_all
  from round_trip [OF lib, where s = "demo_proc (replicate 16 0)" and mem = "replicate 16 0"
      and t = "demo_ipc_proc (replicate 16 0)"
      and obj = "\<lparr>shm_id = 1, shm_address = Some 4096\<rparr>" and addr = 4096
      and seg = "replicate 16 0"]
  show ?thesis
    using w iw by (simp add: memory_view_demo_proc ipc_memory_demo_ipc_proc segment_at_demo_ipc_proc)
qed

section \<open>The frame in the segment\<close>

text \<open>
  Claim C5. After a successful call of the writing method, in both variants, the first
  four bytes of the segment are the payload's byte length as \<^verbatim>\<open>struct\<close> packs an
  unsigned 32-bit integer in native byte order (they read back as that length), and the
  next bytes, exactly that many, are the payload: the UTF-8 bytes of the JSON text. The
  \<^verbatim>\<open>sysv_ipc\<close> variant packs with the signed format \<^verbatim>\<open>'i'\<close>, which gives
  the same four bytes for every length it accepts.
\<close>

theorem frame_layout:
  assumes "json_dumps L v = Inr text" and "str_encode L text = Inr payload"
  shows "(memory_view s = Mapped mem \<and> fst (write_shm L v s) = Inr ()
            \<longrightarrow> (\<exists>mem'. memory_view (snd (write_shm L v s)) = Mapped mem' \<and>
                   pack_I (byteorder L) (int (length payload)) = Inr (take 4 mem') \<and>
                   unpack_from_I (byteorder L) mem' = Inr (length payload) \<and>
                   take (length payload) (drop 4 mem') = payload)) \<and>
         (ipc_memory (self t) = Some obj \<and> shm_address obj = Some addr \<and>
            segment_at (kern t) addr = Some seg \<and> fst (ipc_write L v t) = Inr ()
            \<longrightarrow> (\<exists>seg'. segment_at (kern (snd (ipc_write L v t))) addr = Some seg' \<and>
                   pack_I (byteorder L) (int (length payload)) = Inr (take 4 seg') \<and>
                   unpack_from_I (byteorder L) seg' = Inr (length payload) \<and>
                   take (length payload) (drop 4 seg') = payload))"
proof (intro conjI impI)
  let ?hdr = "native (byteorder L) (le_bytes (length payload))"
  have hl: "length ?hdr = 4" by (simp add: length_native length_le_bytes)
  assume h: "memory_view s = Mapped mem \<and> fst (write_shm L v s) = Inr ()"
  let ?frame = "?hdr @ payload @ replicate (self_size (self s) - (4 + length payload)) 0"
  from h have small: "length payload < 2 ^ 32"
    using write_shm_succeeds [OF _ assms] by blast
  from h have view: "memory_view (snd (write_shm L v s)) = Mapped ?frame"
    using write_shm_result(1) [OF _ assms] by blast
  have "pack_I (byteorder L) (int (length payload)) = Inr (take 4 ?frame)"
    using small hl by (simp add: pack_I_def)
  moreover have "unpack_from_I (byteorder L) ?frame = Inr (length payload)"
    using small by (rule unpack_from_I_frame)
  moreover have "take (length payload) (drop 4 ?frame) = payload"
    using hl by simp
  ultimately show "\<exists>mem'. memory_view (snd (write_shm L v s)) = Mapped mem' \<and>
                   pack_I (byteorder L) (int (length payload)) = Inr (take 4 mem') \<and>
                   unpack_from_I (byteorder L) mem' = Inr (length payload) \<and>
                   take (length payload) (drop 4 mem') = payload"
    using view by blast
next
  let ?hdr = "native (byteorder L) (le_bytes (length payload))"
  have hl: "length ?hdr = 4" by (simp add: length_native length_le_bytes)
  assume h: "ipc_memory (self t) = Some obj \<and> shm_address obj = Some addr \<and>
            segment_at (kern t) addr = Some seg \<and> fst (ipc_write L v t) = Inr ()"
  let ?seg' = "?hdr @ payload @ drop (4 + length payload) seg"
  from h have seg': "segment_at (kern (snd (ipc_write L v t))) addr = Some ?seg'"
    and small: "length payload < 2 ^ 31"
    using ipc_write_result [OF _ _ _ assms] by blast+
  from small have small32: "length payload < 2 ^ 32" by simp
  have "pack_I (byteorder L) (int (length payload)) = Inr (take 4 ?seg')"
    using small32 hl by (simp add: pack_I_def)
  moreover have "unpack_from_I (byteorder L) ?seg' = Inr (length payload)"
    using small32 by (rule unpack_from_I_frame)
  moreover have "take (length payload) (drop 4 ?seg') = payload"
    using hl by simp
  ultimately show "\<exists>seg'. segment_at (kern (snd (ipc_write L v t))) addr = Some seg' \<and>
                   pack_I (byteorder L) (int (length payload)) = Inr (take 4 seg') \<and>
                   unpack_from_I (byteorder L) seg' = Inr (length payload) \<and>
                   take (length payload) (drop 4 seg') = payload"
    using seg' by blast
qed

lemma scenario_lib:
  "json_dumps (table_lib scenario_tbl) (PyInt 7) = Inr ''7''"
  "str_encode (table_lib scenario_tbl) ''7'' = Inr [55]"
  "json_dumps (table_lib scenario_tbl) (PyDict [(''data'', PyInt 21)]) = Inr data21_text"
  "str_encode (table_lib scenario_tbl) data21_text =
     Inr [123, 34, 100, 97, 116, 97, 34, 58, 32, 50, 49, 125]"
  by (simp_all add: table_lib_sel scenario_docs data21_bytes seven_bytes)

lemma write_seven:
  "fst (write_shm (table_lib scenario_tbl) (PyInt 7) (demo_proc [9, 9, 9, 9, 9, 9, 9, 9])) = Inr ()"
  "fst (ipc_write (table_lib scenario_tbl) (PyInt 7) (demo_ipc_proc [9, 9, 9, 9, 9, 9, 9, 9])) =
     Inr ()"
  by (rule write_shm_fits [OF memory_view_demo_proc scenario_lib(1,2)],
      simp_all add: self_size_demo_proc,
      rule ipc_write_fits [OF ipc_memory_demo_ipc_proc _ segment_at_demo_ipc_proc
        scenario_lib(1,2)], simp_all)

theorem frame_layout_witness:
  "fst (write_shm (table_lib scenario_tbl) (PyInt 7) (demo_proc [9, 9, 9, 9, 9, 9, 9, 9])) =
     Inr () \<and>
   (\<exists>mem'. memory_view (snd (write_shm (table_lib scenario_tbl) (PyInt 7)
                               (demo_proc [9, 9, 9, 9, 9, 9, 9, 9]))) = Mapped mem' \<and>
           take 4 mem' = [1, 0, 0, 0] \<and> take 1 (drop 4 mem') = [55]) \<and>
   fst (ipc_write (table_lib scenario_tbl) (PyInt 7) (demo_ipc_proc [9, 9, 9, 9, 9, 9, 9, 9])) =
     Inr () \<and>
   (\<exists>seg'. segment_at (kern (snd (ipc_write (table_lib scenario_tbl) (PyInt 7)
                                    (demo_ipc_proc [9, 9, 9, 9, 9, 9, 9, 9])))) 4096 =
             Some seg' \<and>
           take 4 seg' = [1, 0, 0, 0] \<and> take 1 (drop 4 seg') = [55])"
  using frame_layout [OF scenario_lib(1,2), where s = "demo_proc [9, 9, 9, 9, 9, 9, 9, 9]"
      and mem = "[9, 9, 9, 9, 9, 9, 9, 9]"
      and t = "demo_ipc_proc [9, 9, 9, 9, 9, 9, 9, 9]"
      and obj = "\<lparr>shm_id = 1, shm_address = Some 4096\<rparr>" and addr = 4096
      and seg = "[9, 9, 9, 9, 9, 9, 9, 9]"]
  by (auto simp: write_seven memory_view_demo_proc ipc_memory_demo_ipc_proc
      segment_at_demo_ipc_proc pack_I_def native_def le_bytes_def table_lib_sel)

section \<open>What a call of the writing method leaves past the frame\<close>

lemma write_seven_over_frame:
  "fst (write_shm (table_lib scenario_tbl) (PyInt 7)
         (demo_proc [12, 0, 0, 0, 123, 34, 100, 97, 116, 97, 34, 58, 32, 50, 49, 125])) = Inr ()"
  "fst (ipc_write (table_lib scenario_tbl) (PyInt 7)
         (demo_ipc_proc [12, 0, 0, 0, 123, 34, 100, 97, 116, 97, 34, 58, 32, 50, 49, 125])) =
     Inr ()"
  by (rule write_shm_fits [OF memory_view_demo_proc scenario_lib(1,2)],
      simp_all add: self_size_demo_proc,
      rule ipc_write_fits [OF ipc_memory_demo_ipc_proc _ segment_at_demo_ipc_proc
        scenario_lib(1,2)], simp_all)

text \<open>
  Claim C4, as stated, fails on \<open>ipc_write\<close>, which fills nothing with zeros: in a
  segment that holds the frame of \<^verbatim>\<open>{"data": 21}\<close>, writing \<^verbatim>\<open>7\<close>
  succeeds and leaves eleven bytes of the old payload after the new frame.
\<close>

theorem ipc_write_stale_counterexample:
  "fst (ipc_write (table_lib scenario_tbl) (PyInt 7)
         (demo_ipc_proc [12, 0, 0, 0, 123, 34, 100, 97, 116, 97, 34, 58, 32, 50, 49, 125])) =
     Inr () \<and>
   segment_at
     (kern (snd (ipc_write (table_lib scenario_tbl) (PyInt 7)
                   (demo_ipc_proc [12, 0, 0, 0, 123, 34, 100, 97, 116, 97, 34, 58, 32, 50, 49, 125]))))
     4096 = Some [1, 0, 0, 0, 55, 34, 100, 97, 116, 97, 34, 58, 32, 50, 49, 125]"
  using
    ipc_write_result(1) [OF ipc_memory_demo_ipc_proc _ segment_at_demo_ipc_proc
      scenario_lib(1,2) write_seven_over_frame(2)]
  by (simp add: write_seven_over_frame table_lib_sel native_def le_bytes_def)

text \<open>
  Claim C4, amended. In the ctypes variant a successful call leaves, in the
  \<open>self.size\<close> bytes of its array, the frame at offset 0 (the four bytes of the length,
  then the payload) and zeros in every byte past it, whatever the array held before. In
  the \<^verbatim>\<open>sysv_ipc\<close> variant a successful call leaves the frame at offset 0 and
  every byte past the frame as it was.
\<close>

theorem write_fill:
  assumes "json_dumps L v = Inr text" and "str_encode L text = Inr payload"
  shows "(memory_view s = Mapped mem \<and> fst (write_shm L v s) = Inr ()
            \<longrightarrow> (\<exists>hdr. pack_I (byteorder L) (int (length payload)) = Inr hdr \<and>
                   memory_view (snd (write_shm L v s)) =
                     Mapped (hdr @ payload @
                             replicate (self_size (self s) - (4 + length payload)) 0))) \<and>
         (ipc_memory (self t) = Some obj \<and> shm_address obj = Some addr \<and>
            segment_at (kern t) addr = Some seg \<and> fst (ipc_write L v t) = Inr ()
            \<longrightarrow> (\<exists>hdr. pack_i (byteorder L) (int (length payload)) = Inr hdr \<and>
                   segment_at (kern (snd (ipc_write L v t))) addr =
                     Some (hdr @ payload @ drop (4 + length payload) seg)))"
proof (intro conjI impI)
  assume h: "memory_view s = Mapped mem \<and> fst (write_shm L v s) = Inr ()"
  then have "length payload < 2 ^ 32"
    using write_shm_succeeds [OF _ assms] by blast
  then have "pack_I (byteorder L) (int (length payload)) =
               Inr (native (byteorder L) (le_bytes (length payload)))"
    by (simp add: pack_I_def)
  moreover from h have "memory_view (snd (write_shm L v s)) =
      Mapped (native (byteorder L) (le_bytes (length payload)) @ payload @
              replicate (self_size (self s) - (4 + length payload)) 0)"
    using write_shm_result(1) [OF _ assms] by blast
  ultimately show "\<exists>hdr. pack_I (byteorder L) (int (length payload)) = Inr hdr \<and>
                   memory_view (snd (write_shm L v s)) =
                     Mapped (hdr @ payload @
                             replicate (self_size (self s) - (4 + length payload)) 0)"
    by blast
next
  assume h: "ipc_memory (self t) = Some obj \<and> shm_address obj = Some addr \<and>
            segment_at (kern t) addr = Some seg \<and> fst (ipc_write L v t) = Inr ()"
  then have "length payload < 2 ^ 31"
    using ipc_write_result(4) [OF _ _ _ assms] by blast
  then have "pack_i (byteorder L) (int (length payload)) =
               Inr (native (byteorder L) (le_bytes (length payload)))"
    by (simp add: pack_i_def)
  moreover from h have "segment_at (kern (snd (ipc_write L v t))) addr =
      Some (native (byteorder L) (le_bytes (length payload)) @ payload @
            drop (4 + length payload) seg)"
    using ipc_write_result(1) [OF _ _ _ assms] by blast
  ultimately show "\<exists>hdr. pack_i (byteorder L) (int (length payload)) = Inr hdr \<and>
                   segment_at (kern (snd (ipc_write L v t))) addr =
                     Some (hdr @ payload @ drop (4 + length payload) seg)"
    by blast
qed

theorem write_fill_witness:
  "fst (write_shm (table_lib scenario_tbl) (PyInt 7)
         (demo_proc [12, 0, 0, 0, 123, 34, 100, 97, 116, 97, 34, 58, 32, 50, 49, 125])) = Inr () \<and>
   memory_view
     (snd (write_shm (table_lib scenario_tbl) (PyInt 7)
             (demo_proc [12, 0, 0, 0, 123, 34, 100, 97, 116, 97, 34, 58, 32, 50, 49, 125]))) =
     Mapped [1, 0, 0, 0, 55, 0, 0, 0, 0, 0, 0, 0, 0, 0, 0, 0] \<and>
   fst (ipc_write (table_lib scenario_tbl) (PyInt 7)
         (demo_ipc_proc [12, 0, 0, 0, 123, 34, 100, 97, 116, 97, 34, 58, 32, 50, 49, 125])) =
     Inr () \<and>
   segment_at
     (kern (snd (ipc_write (table_lib scenario_tbl) (PyInt 7)
                   (demo_ipc_proc [12, 0, 0, 0, 123, 34, 100, 97, 116, 97, 34, 58, 32, 50, 49, 125]))))
     4096 = Some [1, 0, 0, 0, 55, 34, 100, 97, 116, 97, 34, 58, 32, 50, 49, 125]"
  using write_fill [OF scenario_lib(1,2),
      where s = "demo_proc [12, 0, 0, 0, 123, 34, 100, 97, 116, 97, 34, 58, 32, 50, 49, 125]"
      and mem = "[12, 0, 0, 0, 123, 34, 100, 97, 116, 97, 34, 58, 32, 50, 49, 125]"
      and t = "demo_ipc_proc [12, 0, 0, 0, 123, 34, 100, 97, 116, 97, 34, 58, 32, 50, 49, 125]"
      and obj = "\<lparr>shm_id = 1, shm_address = Some 4096\<rparr>" and addr = 4096
      and seg = "[12, 0, 0, 0, 123, 34, 100, 97, 116, 97, 34, 58, 32, 50, 49, 125]"]
  by (auto simp: write_seven_over_frame memory_view_demo_proc ipc_memory_demo_ipc_proc
      segment_at_demo_ipc_proc self_size_demo_proc pack_I_def pack_i_def native_def
      le_bytes_def table_lib_sel)

section \<open>Releasing a handle\<close>

lemma cleanup_returns: "fst (cleanup s) = Inr ()"
  by (simp add: cleanup_def Let_def split: option.splits prod.splits)

lemma cleanup_attached:
  assumes "self_memory (self s) = Some addr" and "0 < self_size (self s)"
  shows "kern (snd (cleanup s)) =
           snd (shmctl_rmid (snd (shmdt (kern s) addr))
                  (case self_shmid (self s) of None \<Rightarrow> 0 | Some i \<Rightarrow> i))"
    and "self_memory (self (snd (cleanup s))) = None"
    and "self_shmid (self (snd (cleanup s))) = None"
  using assms by (simp_all add: cleanup_def Let_def split: prod.splits)

lemma cleanup_logs_failure:
  assumes "self_memory (self s) = Some addr" and "0 < self_size (self s)"
    and "fst (shmctl_rmid (snd (shmdt (kern s) addr))
                (case self_shmid (self s) of None \<Rightarrow> 0 | Some i \<Rightarrow> i)) = Inl e"
  shows "PrintShmctlFailed e \<in> set (stdout (snd (cleanup s)))"
  using assms by (auto simp: cleanup_def Let_def split: prod.splits)

lemma ipc_cleanup_detached:
  assumes "ipc_memory (self t) = Some obj" and "sysv_detach obj (kern t) = (Inr (), obj1, k1)"
  shows "fst (ipc_cleanup t) = Inr ()"
    and "kern (snd (ipc_cleanup t)) = snd (sysv_remove obj1 k1)"
  using assms by (simp_all add: ipc_cleanup_def split: prod.splits)

lemma sysv_detach_attached:
  assumes "shm_address obj = Some addr" and "atts k addr = Some i"
  shows "sysv_detach obj k = (Inr (), obj\<lparr>shm_address := None\<rparr>, snd (shmdt k addr))"
  using assms by (auto simp: sysv_detach_def shmdt_def Let_def split: option.splits)

lemma sysv_remove_kernel: "snd (sysv_remove obj k) = snd (shmctl_rmid k (shm_id obj))"
  by (simp add: sysv_remove_def split: prod.splits sum.splits)

lemma shmctl_rmid_fails: "fst (shmctl_rmid k i) = Inl e \<Longrightarrow> snd (shmctl_rmid k i) = k"
  by (auto simp: shmctl_rmid_def split: option.splits if_splits)

text \<open>
  Detaching one attachment and asking for removal leaves the bytes of the segment where
  another attachment still reads them.
\<close>

lemma detach_remove_keeps_other:
  assumes "atts k a = Some i" and "atts k b = Some i" and "a \<noteq> b"
    and "segs k i = Some sg" and "2 \<le> seg_nattch sg"
  shows "segment_at (snd (shmctl_rmid (snd (shmdt k a)) i)) b = Some (seg_bytes sg)"
proof -
  from assms(5) have n: "seg_nattch sg - 1 \<noteq> 0" by simp
  have d: "snd (shmdt k a) =
             k\<lparr>atts := (atts k)(a := None),
               segs := (segs k)(i \<mapsto> sg\<lparr>seg_nattch := seg_nattch sg - 1\<rparr>)\<rparr>"
    using assms(1,4) n by (simp add: shmdt_def Let_def)
  show ?thesis
    unfolding d using assms(2,3) n
    by (simp add: shmctl_rmid_def segment_at_def)
qed

text \<open>
  Claim C7. In the ctypes variant a second \<open>cleanup\<close> does nothing and raises nothing:
  the first one cleared \<open>self.memory\<close>. In the \<^verbatim>\<open>sysv_ipc\<close> variant the first
  \<open>ipc_cleanup\<close> leaves \<open>self.memory\<close> set, so the second one calls
  \<^verbatim>\<open>detach()\<close> again, on an object that is no longer attached, and the
  \<^verbatim>\<open>NotAttachedError\<close> reaches the caller.
\<close>

theorem cleanup_twice:
  "cleanup (snd (cleanup s)) = (Inr (), snd (cleanup s)) \<and>
   (ipc_memory (self t) \<noteq> None
      \<longrightarrow> fst (ipc_cleanup (snd (ipc_cleanup t))) = Inl NotAttachedError)"
proof (intro conjI impI)
  show "cleanup (snd (cleanup s)) = (Inr (), snd (cleanup s))"
    by (auto simp: cleanup_def Let_def split: option.splits prod.splits)
next
  assume "ipc_memory (self t) \<noteq> None"
  then obtain obj where obj: "ipc_memory (self t) = Some obj" by auto
  obtain r obj1 k1 where d: "sysv_detach obj (kern t) = (r, obj1, k1)"
    by (cases "sysv_detach obj (kern t)") auto
  then have gone: "shm_address obj1 = None"
    by (auto simp: sysv_detach_def split: option.splits prod.splits sum.splits)
  have "ipc_memory (self (snd (ipc_cleanup t))) = Some obj1"
    using obj d by (cases r) (simp_all add: ipc_cleanup_def split: prod.splits)
  then show "fst (ipc_cleanup (snd (ipc_cleanup t))) = Inl NotAttachedError"
    using gone by (simp add: ipc_cleanup_def sysv_detach_def)
qed

theorem cleanup_twice_witness:
  "ipc_memory (self (demo_ipc_proc [0, 0, 0, 0])) \<noteq> None \<and>
   fst (ipc_cleanup (demo_ipc_proc [0, 0, 0, 0])) = Inr () \<and>
   fst (ipc_cleanup (snd (ipc_cleanup (demo_ipc_proc [0, 0, 0, 0])))) = Inl NotAttachedError \<and>
   fst (cleanup (snd (cleanup (demo_proc [0, 0, 0, 0])))) = Inr ()"
  using cleanup_twice [of "demo_proc [0, 0, 0, 0]" "demo_ipc_proc [0, 0, 0, 0]"]
  by (simp add: ipc_memory_demo_ipc_proc)
    (simp add: ipc_cleanup_def demo_ipc_proc_def demo_kernel_def sysv_detach_def shmdt_def
      sysv_remove_def shmctl_rmid_def destroy_def)

lemma sysv_remove_fails: "fst (sysv_remove obj k) = Inl e \<Longrightarrow> snd (sysv_remove obj k) = k"
  by (auto simp: sysv_remove_def shmctl_rmid_def split: option.splits if_splits)

text \<open>
  Claim C8. A removal that fails is swallowed. In the ctypes variant \<open>cleanup\<close>
  never raises; when \<^verbatim>\<open>shmctl\<close> fails it prints the error and leaves the kernel
  as the detach left it. In the \<^verbatim>\<open>sysv_ipc\<close> variant, once \<^verbatim>\<open>detach()\<close>
  has succeeded, \<open>ipc_cleanup\<close> returns normally whatever \<^verbatim>\<open>remove()\<close> does,
  and a failed removal leaves the kernel as the detach left it. And in both variants a
  process that is still attached to the segment finds its bytes unchanged after the
  other's release.
\<close>

theorem removal_best_effort:
  "fst (cleanup s) = Inr () \<and>
   (self_memory (self s) = Some addr \<and> 0 < self_size (self s) \<and>
      fst (shmctl_rmid (snd (shmdt (kern s) addr))
             (case self_shmid (self s) of None \<Rightarrow> 0 | Some i \<Rightarrow> i)) = Inl e
      \<longrightarrow> kern (snd (cleanup s)) = snd (shmdt (kern s) addr) \<and>
          PrintShmctlFailed e \<in> set (stdout (snd (cleanup s)))) \<and>
   (ipc_memory (self t) = Some obj \<and> sysv_detach obj (kern t) = (Inr (), obj1, k1)
      \<longrightarrow> fst (ipc_cleanup t) = Inr () \<and>
          (fst (sysv_remove obj1 k1) = Inl e' \<longrightarrow> kern (snd (ipc_cleanup t)) = k1)) \<and>
   (self_memory (self s) = Some addr \<and> 0 < self_size (self s) \<and>
      self_shmid (self s) = Some i \<and> atts (kern s) addr = Some i \<and>
      atts (kern s) b = Some i \<and> addr \<noteq> b \<and>
      segs (kern s) i = Some sg \<and> 2 \<le> seg_nattch sg
      \<longrightarrow> segment_at (kern (snd (cleanup s))) b = Some (seg_bytes sg)) \<and>
   (ipc_memory (self t) = Some obj \<and> shm_address obj = Some addr \<and> shm_id obj = i \<and>
      atts (kern t) addr = Some i \<and> atts (kern t) b = Some i \<and> addr \<noteq> b \<and>
      segs (kern t) i = Some sg \<and> 2 \<le> seg_nattch sg
      \<longrightarrow> fst (ipc_cleanup t) = Inr () \<and>
          segment_at (kern (snd (ipc_cleanup t))) b = Some (seg_bytes sg))"
proof (intro conjI impI)
  show "fst (cleanup s) = Inr ()" by (rule cleanup_returns)
next
  assume h: "self_memory (self s) = Some addr \<and> 0 < self_size (self s) \<and>
      fst (shmctl_rmid (snd (shmdt (kern s) addr))
             (case self_shmid (self s) of None \<Rightarrow> 0 | Some i \<Rightarrow> i)) = Inl e"
  then show "kern (snd (cleanup s)) = snd (shmdt (kern s) addr)"
    by (simp add: cleanup_attached(1) shmctl_rmid_fails)
  from h show "PrintShmctlFailed e \<in> set (stdout (snd (cleanup s)))"
    using cleanup_logs_failure by blast
next
  assume h: "ipc_memory (self t) = Some obj \<and> sysv_detach obj (kern t) = (Inr (), obj1, k1)"
  then show "fst (ipc_cleanup t) = Inr ()"
    using ipc_cleanup_detached(1) by blast
  assume "fst (sysv_remove obj1 k1) = Inl e'"
  then have "snd (sysv_remove obj1 k1) = k1"
    by (rule sysv_remove_fails)
  with h show "kern (snd (ipc_cleanup t)) = k1"
    using ipc_cleanup_detached(2) by metis
next
  assume h: "self_memory (self s) = Some addr \<and> 0 < self_size (self s) \<and>
      self_shmid (self s) = Some i \<and> atts (kern s) addr = Some i \<and>
      atts (kern s) b = Some i \<and> addr \<noteq> b \<and>
      segs (kern s) i = Some sg \<and> 2 \<le> seg_nattch sg"
  then have "kern (snd (cleanup s)) = snd (shmctl_rmid (snd (shmdt (kern s) addr)) i)"
    by (simp add: cleanup_attached(1))
  with h show "segment_at (kern (snd (cleanup s))) b = Some (seg_bytes sg)"
    by (simp add: detach_remove_keeps_other)
next
  assume h: "ipc_memory (self t) = Some obj \<and> shm_address obj = Some addr \<and> shm_id obj = i \<and>
      atts (kern t) addr = Some i \<and> atts (kern t) b = Some i \<and> addr \<noteq> b \<and>
      segs (kern t) i = Some sg \<and> 2 \<le> seg_nattch sg"
  then have d: "sysv_detach obj (kern t) =
                  (Inr (), obj\<lparr>shm_address := None\<rparr>, snd (shmdt (kern t) addr))"
    by (intro sysv_detach_attached) auto
  from h show "fst (ipc_cleanup t) = Inr ()"
    using ipc_cleanup_detached(1) [OF _ d] by blast
  from h have "kern (snd (ipc_cleanup t)) =
                 snd (sysv_remove (obj\<lparr>shm_address := None\<rparr>) (snd (shmdt (kern t) addr)))"
    using ipc_cleanup_detached(2) [OF _ d] by blast
  with h show "segment_at (kern (snd (ipc_cleanup t))) b = Some (seg_bytes sg)"
    by (simp add: sysv_remove_kernel detach_remove_keeps_other)
qed

lemma marked_kernel_removal_fails:
  "fst (shmctl_rmid (snd (shmdt (demo_marked_kernel bytes) 4096)) 1) = Inl EINVAL"
  "sysv_detach \<lparr>shm_id = 1, shm_address = Some 4096\<rparr> (demo_marked_kernel bytes) =
     (Inr (), \<lparr>shm_id = 1, shm_address = None\<rparr>, snd (shmdt (demo_marked_kernel bytes) 4096))"
  "fst (sysv_remove \<lparr>shm_id = 1, shm_address = None\<rparr>
          (snd (shmdt (demo_marked_kernel bytes) 4096))) = Inl ExistentialError"
  by (simp_all add: demo_marked_kernel_def shmdt_def shmctl_rmid_def destroy_def
      sysv_detach_def sysv_remove_def)

theorem removal_best_effort_witness:
  "fst (shmctl_rmid (snd (shmdt (demo_marked_kernel [7, 7, 7, 7]) 4096)) 1) = Inl EINVAL \<and>
   fst (cleanup (holder (demo_marked_kernel [7, 7, 7, 7]) 4)) = Inr () \<and>
   PrintShmctlFailed EINVAL \<in>
     set (stdout (snd (cleanup (holder (demo_marked_kernel [7, 7, 7, 7]) 4)))) \<and>
   fst (sysv_remove \<lparr>shm_id = 1, shm_address = None\<rparr>
          (snd (shmdt (demo_marked_kernel [7, 7, 7, 7]) 4096))) = Inl ExistentialError \<and>
   fst (ipc_cleanup (ipc_holder (demo_marked_kernel [7, 7, 7, 7]) 4)) = Inr () \<and>
   kern (snd (ipc_cleanup (ipc_holder (demo_marked_kernel [7, 7, 7, 7]) 4))) =
     snd (shmdt (demo_marked_kernel [7, 7, 7, 7]) 4096) \<and>
   segment_at (kern (snd (cleanup (holder (demo_shared_kernel [7, 7, 7, 7]) 4)))) 8192 =
     Some [7, 7, 7, 7] \<and>
   segment_at (kern (snd (ipc_cleanup (ipc_holder (demo_shared_kernel [7, 7, 7, 7]) 4)))) 8192 =
     Some [7, 7, 7, 7]"
  using
    removal_best_effort [where s = "holder (demo_marked_kernel [7, 7, 7, 7]) 4"
      and addr = 4096 and e = EINVAL
      and t = "ipc_holder (demo_marked_kernel [7, 7, 7, 7]) 4"
      and obj = "\<lparr>shm_id = 1, shm_address = Some 4096\<rparr>"
      and ?obj1.0 = "\<lparr>shm_id = 1, shm_address = None\<rparr>"
      and ?k1.0 = "snd (shmdt (demo_marked_kernel [7, 7, 7, 7]) 4096)"
      and e' = ExistentialError]
    removal_best_effort [where s = "holder (demo_shared_kernel [7, 7, 7, 7]) 4"
      and addr = 4096 and i = 1 and b = 8192
      and sg = "\<lparr>seg_key = 12345, seg_bytes = [7, 7, 7, 7], seg_nattch = 2, seg_dest = False\<rparr>"
      and t = "ipc_holder (demo_shared_kernel [7, 7, 7, 7]) 4"
      and obj = "\<lparr>shm_id = 1, shm_address = Some 4096\<rparr>"]
  by (simp add: marked_kernel_removal_fails holder_def ipc_holder_def demo_shared_kernel_def)


section \<open>Acquiring a segment\<close>

lemma flags:
  "(IPC_CREAT OR 438) AND IPC_EXCL = 0"
  "(384 OR (IPC_CREAT OR 438)) AND IPC_EXCL = 0"
  "384 AND IPC_EXCL = 0"
  "(384 OR (IPC_CREAT OR IPC_EXCL OR 438)) AND IPC_CREAT \<noteq> 0"
  "(384 OR (IPC_CREAT OR IPC_EXCL OR 438)) AND IPC_EXCL \<noteq> 0"
  by (simp_all add: IPC_CREAT_def IPC_EXCL_def)

text \<open>\<^verbatim>\<open>shmget\<close> on a key that names a segment, without \<^verbatim>\<open>IPC_EXCL\<close>.\<close>

lemma shmget_existing:
  assumes "lookup_key k key = Some (i, sg)"
    and "shmflg AND IPC_EXCL = 0"
  shows "shmget k key sz shmflg =
           (if sz < 0 \<or> int (length (seg_bytes sg)) < sz then (Inl EINVAL, k) else (Inr i, k))"
  using assms by (simp add: shmget_def)

lemma shmget_exclusive:
  assumes "lookup_key k key = Some (i, sg)"
    and "shmflg AND IPC_CREAT \<noteq> 0" and "shmflg AND IPC_EXCL \<noteq> 0"
  shows "shmget k key sz shmflg = (Inl EEXIST, k)"
  using assms by (simp add: shmget_def)

lemma lookup_key_demo_kernel:
  "lookup_key (demo_kernel bytes) 12345 =
     Some (1, \<lparr>seg_key = 12345, seg_bytes = bytes, seg_nattch = 1, seg_dest = False\<rparr>)"
  by (simp add: lookup_key_def demo_kernel_def IPC_PRIVATE_def)

lemma shmat_demo_kernel:
  "fst (shmat (demo_kernel bytes) 1) = Inr 4097"
  by (simp add: shmat_def demo_kernel_def)

text \<open>
  Claim C6. A segment of 4 bytes exists under the key 12345, and a second process asks
  for 1024 bytes under the same key. The claim has the acquisition attach to the segment
  that exists. In the code \<^verbatim>\<open>shmget\<close> answers \<^verbatim>\<open>EINVAL\<close> and both constructors
  raise: \<^verbatim>\<open>shared_memoryPythonSystemV.py\<close> an \<^verbatim>\<open>OSError\<close>, \<^verbatim>\<open>py_ipc.py\<close> a
  \<^verbatim>\<open>ValueError\<close>, which its \<^verbatim>\<open>except sysv_ipc.ExistentialError\<close> clause does not
  catch. That clause, commented "If already exists, just attach to it", would have
  attached: the call it makes succeeds on this kernel. It never runs, because the first
  call asks for \<^verbatim>\<open>IPC_CREAT\<close> without \<^verbatim>\<open>IPC_EXCL\<close>; with both flags the first
  call raises \<^verbatim>\<open>ExistentialError\<close>. A request for the 4 bytes the segment has does
  attach, in both files.
\<close>

theorem acquire_existing_larger_fails:
  "lookup_key (demo_kernel [0, 0, 0, 0]) 12345 =
     Some (1, \<lparr>seg_key = 12345, seg_bytes = [0, 0, 0, 0], seg_nattch = 1, seg_dest = False\<rparr>) \<and>
   fst (SharedMemory_new 12345 1024 (demo_kernel [0, 0, 0, 0])) = Inl (OSError (Some EINVAL)) \<and>
   fst (ipc_SharedMemory_new 12345 1024 (demo_kernel [0, 0, 0, 0])) = Inl ValueError \<and>
   fst (sysv_SharedMemory (demo_kernel [0, 0, 0, 0]) 12345 0 384 0) =
     Inr \<lparr>shm_id = 1, shm_address = Some 4097\<rparr> \<and>
   fst (sysv_SharedMemory (demo_kernel [0, 0, 0, 0]) 12345 (IPC_CREAT OR IPC_EXCL OR 438) 384 1024) =
     Inl ExistentialError \<and>
   fst (SharedMemory_new 12345 4 (demo_kernel [0, 0, 0, 0])) = Inr () \<and>
   fst (ipc_SharedMemory_new 12345 4 (demo_kernel [0, 0, 0, 0])) = Inr ()"
proof (intro conjI)
  let ?k = "demo_kernel [0, 0, 0, 0]"
  show "lookup_key ?k 12345 =
     Some (1, \<lparr>seg_key = 12345, seg_bytes = [0, 0, 0, 0], seg_nattch = 1, seg_dest = False\<rparr>)"
    by (rule lookup_key_demo_kernel)
  show "fst (SharedMemory_new 12345 1024 ?k) = Inl (OSError (Some EINVAL))"
    by (simp add: SharedMemory_new_def init_def c_int_def c_int_result_def get_errno_def
        shmget_existing [OF lookup_key_demo_kernel flags(1)])
  show "fst (ipc_SharedMemory_new 12345 1024 ?k) = Inl ValueError"
    by (simp add: ipc_SharedMemory_new_def ipc_init_def sysv_SharedMemory_def sysv_error_def
        shmget_existing [OF lookup_key_demo_kernel flags(2)])
  show "fst (sysv_SharedMemory ?k 12345 0 384 0) = Inr \<lparr>shm_id = 1, shm_address = Some 4097\<rparr>"
    using shmat_demo_kernel [of "[0, 0, 0, 0]"]
    by (simp add: sysv_SharedMemory_def shmget_existing [OF lookup_key_demo_kernel flags(3)]
        split_beta)
  show "fst (sysv_SharedMemory ?k 12345 (IPC_CREAT OR IPC_EXCL OR 438) 384 1024) =
          Inl ExistentialError"
    by (simp add: sysv_SharedMemory_def sysv_error_def
        shmget_exclusive [OF lookup_key_demo_kernel flags(4,5)])
  show "fst (SharedMemory_new 12345 4 ?k) = Inr ()"
    using shmat_demo_kernel [of "[0, 0, 0, 0]"]
    by (simp add: SharedMemory_new_def init_def c_int_def c_int_result_def c_void_p_result_def
        shmget_existing [OF lookup_key_demo_kernel flags(1)]
        split_beta)
  show "fst (ipc_SharedMemory_new 12345 4 ?k) = Inr ()"
    using shmat_demo_kernel [of "[0, 0, 0, 0]"]
    by (simp add: ipc_SharedMemory_new_def ipc_init_def sysv_SharedMemory_def
        shmget_existing [OF lookup_key_demo_kernel flags(2)]
        split_beta)
qed

section \<open>The socket server\<close>






text \<open>
  The sends are not guarded. When the send of a reply raises \<open>e\<close>, the handler sends
  the error reply for \<open>e\<close>; when that send raises too, as on a connection the peer has
  closed, nothing catches the exception and it ends \<open>run\<close>.
\<close>

lemma send_raises:
  assumes "data \<noteq> []" and "process L data = Inr reply" and "error_reply L e = Inr reply'"
  shows "serve L (Inr data # rest) (Inl e # Inl e' # outs) = ([], Raised e', rest, outs)"
    and "run L ((Inr data # rest, Inl e # Inl e' # outs) # conns) = ([[]], Some e')"
  using assms by (simp_all add: handler_def)









end
